theory Spec2Isabelle
  imports Complex_Main
begin

section \<open>Personal finance chatbot: numbers, errors and rendering\<close>

text \<open>
  The development follows \<^verbatim>\<open>finance_chatbot.py\<close>. Python numbers are modelled at two
  levels. In the first model (\<open>calculate_tax_estimate\<close>, \<open>analyze_budget\<close> and the functions
  that call them) \<^verbatim>\<open>int\<close> and \<^verbatim>\<open>float\<close> alike are mathematical reals and the arithmetic is
  exact: it is the model of the control flow, of the structure of the results and of the
  replies. In the second model (\<open>calculate_tax_estimate_b64\<close>, \<open>analyze_budget_b64\<close>) every
  arithmetic operation is rounded to a double, as Python does it; the properties that
  compare computed amounts with each other are settled there. Overflow and NaN are outside
  both models, and \<^verbatim>\<open>float('inf')\<close>, which the source uses only as the upper bound of the
  last tax bracket, is the value \<open>None\<close> of an optional bound. Python strings are byte
  strings (the UTF-8 text of the source file). An exception is a value \<open>Inl e\<close> of a sum
  type.
\<close>

datatype py_error = ZeroDivisionError | TypeError | KeyError

text \<open>
  The format specifications of the f-strings are library code; they are total on numbers
  and are taken as parameters: \<^verbatim>\<open>{x:,.0f}\<close>, \<^verbatim>\<open>{x:,.2f}\<close>, \<^verbatim>\<open>{x:.1f}\<close> and \<^verbatim>\<open>{x}\<close>.
\<close>

record formatter =
  fmt_comma0 :: "real \<Rightarrow> string"
  fmt_comma2 :: "real \<Rightarrow> string"
  fmt_fixed1 :: "real \<Rightarrow> string"
  fmt_str :: "real \<Rightarrow> string"

section \<open>FinancialAnalyzer\<close>

subsection \<open>calculate_tax_estimate\<close>

text \<open>A bracket is \<open>(lower, upper, rate)\<close>; the upper bound \<open>None\<close> is \<^verbatim>\<open>float('inf')\<close>.\<close>

type_synonym tax_bracket = "real \<times> real option \<times> real"

definition single_brackets :: "tax_bracket list" where
  "single_brackets =
    [(0, Some 11000, 0.10),
     (11000, Some 44725, 0.12),
     (44725, Some 95375, 0.22),
     (95375, Some 182050, 0.24),
     (182050, Some 231250, 0.32),
     (231250, Some 578125, 0.35),
     (578125, None, 0.37)]"

definition tax_brackets_2024 :: "(string \<times> tax_bracket list) list" where
  "tax_brackets_2024 = [(''single'', single_brackets)]"

record tax_entry =
  bracket :: string
  range_str :: string
  taxable_amount :: real
  tax_amount :: real

record tax_result =
  total_tax :: real
  effective_rate :: real
  after_tax_income :: real
  breakdown :: "tax_entry list"

text \<open>\<^verbatim>\<open>min(income, upper)\<close>, where \<^verbatim>\<open>upper\<close> may be infinite.\<close>

definition min_upper :: "real \<Rightarrow> real option \<Rightarrow> real" where
  "min_upper income upper = (case upper of None \<Rightarrow> income | Some u \<Rightarrow> min income u)"

definition mk_entry :: "formatter \<Rightarrow> real \<Rightarrow> tax_bracket \<Rightarrow> tax_entry" where
  "mk_entry F income b =
    (case b of (lower, upper, rate) \<Rightarrow>
      \<lparr>bracket = fmt_str F (rate * 100) @ ''%'',
       range_str = (case upper of
           Some u \<Rightarrow> ''$'' @ fmt_comma0 F lower @ '' - $'' @ fmt_comma0 F u
         | None \<Rightarrow> ''$'' @ fmt_comma0 F lower @ ''+''),
       taxable_amount = min_upper income upper - lower,
       tax_amount = (min_upper income upper - lower) * rate\<rparr>)"

text \<open>
  The \<^verbatim>\<open>for\<close> loop over the brackets, with its \<^verbatim>\<open>break\<close>; the accumulators are
  \<^verbatim>\<open>total_tax\<close> and \<^verbatim>\<open>tax_breakdown\<close>.
\<close>

fun tax_loop ::
  "formatter \<Rightarrow> real \<Rightarrow> tax_bracket list \<Rightarrow> real \<Rightarrow> tax_entry list \<Rightarrow> real \<times> tax_entry list"
where
  "tax_loop F income [] tot bd = (tot, bd)"
| "tax_loop F income ((lower, upper, rate) # rest) tot bd =
    (if income \<le> lower then (tot, bd)
     else
       let taxable_in_bracket = min_upper income upper - lower;
           tax_in_bracket = taxable_in_bracket * rate
       in tax_loop F income rest (tot + tax_in_bracket)
            (if taxable_in_bracket > 0
             then bd @ [mk_entry F income (lower, upper, rate)] else bd))"

definition calculate_tax_estimate :: "formatter \<Rightarrow> real \<Rightarrow> string \<Rightarrow> tax_result" where
  "calculate_tax_estimate F income filing_status =
    (let brackets = (case map_of tax_brackets_2024 filing_status of
                       Some bs \<Rightarrow> bs | None \<Rightarrow> single_brackets);
         (tot, bd) = tax_loop F income brackets 0 []
     in \<lparr>total_tax = tot,
         effective_rate = (if income > 0 then (tot / income) * 100 else 0),
         after_tax_income = income - tot,
         breakdown = bd\<rparr>)"

text \<open>
  Well-formedness of a bracket table as the source writes it: each bracket starts where the
  previous one ends, every upper bound exceeds its lower bound, every rate is positive, and
  only the last bracket is unbounded.
\<close>

fun contiguous :: "real \<Rightarrow> tax_bracket list \<Rightarrow> bool" where
  "contiguous lo [] = False"
| "contiguous lo [(l, u, r)] = (l = lo \<and> u = None \<and> 0 < r)"
| "contiguous lo ((l, u, r) # b # bs) =
    (l = lo \<and> 0 < r \<and>
     (case u of None \<Rightarrow> False | Some x \<Rightarrow> lo < x \<and> contiguous x (b # bs)))"

subsection \<open>analyze_budget\<close>

text \<open>
  A \<^verbatim>\<open>Dict[str, float]\<close> is an association list in insertion order; the keys of a
  dictionary are distinct. \<^verbatim>\<open>sum(d.values())\<close> and \<^verbatim>\<open>d.get(k, default)\<close>:
\<close>

type_synonym expense_dict = "(string \<times> real) list"

definition sum_values :: "expense_dict \<Rightarrow> real" where
  "sum_values d = sum_list (map snd d)"

definition dict_get :: "expense_dict \<Rightarrow> string \<Rightarrow> real \<Rightarrow> real" where
  "dict_get d k dflt = (case map_of d k of Some v \<Rightarrow> v | None \<Rightarrow> dflt)"

record recommended_budget =
  rec_needs :: real
  rec_wants :: real
  rec_savings :: real

record budget_analysis =
  total_income :: real
  total_expenses :: real
  savings :: real
  savings_rate :: real
  needs_spending :: real
  wants_spending :: real
  recommended :: recommended_budget
  budget_health :: string

definition needs_categories :: "string list" where
  "needs_categories =
    [''rent'', ''utilities'', ''groceries'', ''transportation'', ''insurance'',
     ''minimum_debt_payments'']"

definition wants_categories :: "string list" where
  "wants_categories = [''dining_out'', ''entertainment'', ''shopping'', ''hobbies'', ''subscriptions'']"

definition assess_budget_health :: "real \<Rightarrow> real \<Rightarrow> real \<Rightarrow> real \<Rightarrow> string" where
  "assess_budget_health rate needs wants income =
    (if rate \<ge> 20 then ''excellent''
     else if rate \<ge> 10 then ''good''
     else if rate \<ge> 5 then ''fair''
     else ''needs_improvement'')"

definition analyze_budget :: "real \<Rightarrow> expense_dict \<Rightarrow> budget_analysis" where
  "analyze_budget income expenses =
    (let total = sum_values expenses;
         sav = income - total;
         rate = (if income > 0 then (sav / income) * 100 else 0);
         recmd = \<lparr>rec_needs = income * 0.50, rec_wants = income * 0.30,
                  rec_savings = income * 0.20\<rparr>;
         needs_total = sum_list (map (\<lambda>cat. dict_get expenses cat 0) needs_categories);
         wants_total = sum_list (map (\<lambda>cat. dict_get expenses cat 0) wants_categories)
     in \<lparr>total_income = income,
         total_expenses = total,
         savings = sav,
         savings_rate = rate,
         needs_spending = needs_total,
         wants_spending = wants_total,
         recommended = recmd,
         budget_health = assess_budget_health rate needs_total wants_total income\<rparr>)"

subsection \<open>generate_investment_suggestions\<close>

record user_profile =
  user_type :: string
  age :: int
  income :: "real option"
  expenses :: expense_dict
  financial_goals :: "string list"
  risk_tolerance :: string

record suggestion =
  sugg_type :: string
  allocation :: real
  reason :: string
  risk_level :: string
  expected_return :: string

definition generate_investment_suggestions :: "user_profile \<Rightarrow> real \<Rightarrow> suggestion list" where
  "generate_investment_suggestions p available_funds =
    (if user_type p = ''student'' then
       [\<lparr>sugg_type = ''High-Yield Savings Account'',
         allocation = min available_funds 5000,
         reason = ''Build emergency fund with easy access'',
         risk_level = ''Very Low'',
         expected_return = ''4-5% APY''\<rparr>,
        \<lparr>sugg_type = ''Index Fund (S&P 500)'',
         allocation = available_funds * 0.7,
         reason = ''Long-term growth with diversification'',
         risk_level = ''Moderate'',
         expected_return = ''8-10% annually''\<rparr>]
     else if risk_tolerance p = ''low'' then
       [\<lparr>sugg_type = ''Bond Index Fund'',
         allocation = available_funds * 0.4,
         reason = ''Stable income with lower volatility'',
         risk_level = ''Low'',
         expected_return = ''3-5% annually''\<rparr>,
        \<lparr>sugg_type = ''Dividend Growth Fund'',
         allocation = available_funds * 0.6,
         reason = ''Regular income with growth potential'',
         risk_level = ''Moderate'',
         expected_return = ''6-8% annually''\<rparr>]
     else if risk_tolerance p = ''high'' then
       [\<lparr>sugg_type = ''Growth Stock Index'',
         allocation = available_funds * 0.7,
         reason = ''Higher growth potential for long-term wealth building'',
         risk_level = ''High'',
         expected_return = ''10-12% annually''\<rparr>,
        \<lparr>sugg_type = ''International Fund'',
         allocation = available_funds * 0.3,
         reason = ''Geographic diversification'',
         risk_level = ''Moderate-High'',
         expected_return = ''8-10% annually''\<rparr>]
     else [])"

section \<open>FinancialAnalyzer in binary64 arithmetic\<close>

text \<open>
  A Python \<^verbatim>\<open>float\<close> is an IEEE 754 binary64 number, a double: an integer multiple
  \<open>m * 2^e\<close> of a power of two with \<open>\<bar>m\<bar> < 2^53\<close> and \<open>e \<ge> -1074\<close>. Every arithmetic
  operation of the source returns the exact result rounded to the nearest double, ties to
  the even multiple. \<open>rhe\<close> rounds a real to the nearest integer, ties to even; \<open>b64_exp x\<close>
  is the exponent of the unit in the last place of the doubles around \<open>x\<close> (never below the
  subnormal exponent \<open>-1074\<close>); \<open>rnd\<close> is the rounding. The doubles are the reals that \<open>rnd\<close>
  leaves unchanged, and a decimal constant \<open>c\<close> of the source is the double \<open>rnd c\<close>.
  Overflow to \<^verbatim>\<open>inf\<close> is not represented: \<open>rnd\<close> is the rounding of Python for results
  below \<open>2^1024\<close> in absolute value, and the theorems bound their inputs accordingly.
\<close>

definition rhe :: "real \<Rightarrow> int" where
  "rhe y =
    (let f = \<lfloor>y\<rfloor> in
     if y - of_int f < 1 / 2 then f
     else if 1 / 2 < y - of_int f then f + 1
     else if even f then f else f + 1)"

definition pow2 :: "int \<Rightarrow> real" where
  "pow2 k = 2 powr real_of_int k"

definition b64_exp :: "real \<Rightarrow> int" where
  "b64_exp x = max (- 1074) (\<lfloor>log 2 \<bar>x\<bar>\<rfloor> - 52)"

definition rnd :: "real \<Rightarrow> real" where
  "rnd x =
    (if x = 0 then 0
     else of_int (rhe (x / pow2 (b64_exp x))) * pow2 (b64_exp x))"

text \<open>
  \<^verbatim>\<open>sum\<close> starts from the integer 0, adds from the left and rounds after every addition
  (the summation of CPython up to version 3.11; later versions compensate the rounding
  errors of a sum of floats).
\<close>

definition fsum :: "real list \<Rightarrow> real" where
  "fsum xs = foldl (\<lambda>s x. rnd (s + x)) 0 xs"

text \<open>
  \<^verbatim>\<open>calculate_tax_estimate\<close> and \<^verbatim>\<open>analyze_budget\<close> again, statement by statement, with
  every subtraction, multiplication, division and addition of the source followed by \<open>rnd\<close>.
  The bracket bounds are integers; the rates and the shares \<^verbatim>\<open>0.50\<close>, \<^verbatim>\<open>0.30\<close>, \<^verbatim>\<open>0.20\<close> are
  decimal constants. The comparisons and \<^verbatim>\<open>min\<close> are exact.
\<close>

definition mk_entry_b64 :: "formatter \<Rightarrow> real \<Rightarrow> tax_bracket \<Rightarrow> tax_entry" where
  "mk_entry_b64 F inc b =
    (case b of (lower, upper, rate) \<Rightarrow>
      \<lparr>bracket = fmt_str F (rnd (rnd rate * 100)) @ ''%'',
       range_str = (case upper of
           Some u \<Rightarrow> ''$'' @ fmt_comma0 F lower @ '' - $'' @ fmt_comma0 F u
         | None \<Rightarrow> ''$'' @ fmt_comma0 F lower @ ''+''),
       taxable_amount = rnd (min_upper inc upper - lower),
       tax_amount = rnd (rnd (min_upper inc upper - lower) * rnd rate)\<rparr>)"

fun tax_loop_b64 ::
  "formatter \<Rightarrow> real \<Rightarrow> tax_bracket list \<Rightarrow> real \<Rightarrow> tax_entry list \<Rightarrow> real \<times> tax_entry list"
where
  "tax_loop_b64 F inc [] tot bd = (tot, bd)"
| "tax_loop_b64 F inc ((lower, upper, rate) # rest) tot bd =
    (if inc \<le> lower then (tot, bd)
     else
       let taxable_in_bracket = rnd (min_upper inc upper - lower);
           tax_in_bracket = rnd (taxable_in_bracket * rnd rate)
       in tax_loop_b64 F inc rest (rnd (tot + tax_in_bracket))
            (if taxable_in_bracket > 0
             then bd @ [mk_entry_b64 F inc (lower, upper, rate)] else bd))"

definition calculate_tax_estimate_b64 :: "formatter \<Rightarrow> real \<Rightarrow> string \<Rightarrow> tax_result" where
  "calculate_tax_estimate_b64 F inc filing_status =
    (let brackets = (case map_of tax_brackets_2024 filing_status of
                       Some bs \<Rightarrow> bs | None \<Rightarrow> single_brackets);
         (tot, bd) = tax_loop_b64 F inc brackets 0 []
     in \<lparr>total_tax = tot,
         effective_rate = (if inc > 0 then rnd (rnd (tot / inc) * 100) else 0),
         after_tax_income = rnd (inc - tot),
         breakdown = bd\<rparr>)"

definition analyze_budget_b64 :: "real \<Rightarrow> expense_dict \<Rightarrow> budget_analysis" where
  "analyze_budget_b64 inc exps =
    (let total = fsum (map snd exps);
         sav = rnd (inc - total);
         rate = (if inc > 0 then rnd (rnd (sav / inc) * 100) else 0);
         recmd = \<lparr>rec_needs = rnd (inc * rnd 0.50), rec_wants = rnd (inc * rnd 0.30),
                  rec_savings = rnd (inc * rnd 0.20)\<rparr>;
         needs_total = fsum (map (\<lambda>cat. dict_get exps cat 0) needs_categories);
         wants_total = fsum (map (\<lambda>cat. dict_get exps cat 0) wants_categories)
     in \<lparr>total_income = inc,
         total_expenses = total,
         savings = sav,
         savings_rate = rate,
         needs_spending = needs_total,
         wants_spending = wants_total,
         recommended = recmd,
         budget_health = assess_budget_health rate needs_total wants_total inc\<rparr>)"

section \<open>Python strings\<close>

text \<open>
  The string methods the source calls, on byte strings. Letters and digits are the ASCII
  ones: \<^verbatim>\<open>lower\<close>, \<^verbatim>\<open>title\<close> and the pattern \<^verbatim>\<open>\d\<close> agree with Python on
  ASCII text and leave every other byte alone.
\<close>

definition is_digit :: "char \<Rightarrow> bool" where
  "is_digit c = (48 \<le> (of_char c :: nat) \<and> (of_char c :: nat) \<le> 57)"

definition is_upper :: "char \<Rightarrow> bool" where
  "is_upper c = (65 \<le> (of_char c :: nat) \<and> (of_char c :: nat) \<le> 90)"

definition is_lower :: "char \<Rightarrow> bool" where
  "is_lower c = (97 \<le> (of_char c :: nat) \<and> (of_char c :: nat) \<le> 122)"

definition to_lower :: "char \<Rightarrow> char" where
  "to_lower c = (if is_upper c then char_of ((of_char c :: nat) + 32) else c)"

definition to_upper :: "char \<Rightarrow> char" where
  "to_upper c = (if is_lower c then char_of ((of_char c :: nat) - 32) else c)"

text \<open>\<^verbatim>\<open>s.lower()\<close>\<close>

definition lower :: "string \<Rightarrow> string" where
  "lower s = map to_lower s"

text \<open>\<^verbatim>\<open>w in s\<close>: \<open>w\<close> occurs in \<open>s\<close> as a substring.\<close>

fun is_substring :: "string \<Rightarrow> string \<Rightarrow> bool" where
  "is_substring w [] = (w = [])"
| "is_substring w (c # cs) = (take (length w) (c # cs) = w \<or> is_substring w cs)"

text \<open>
  \<^verbatim>\<open>s.replace(old, new)\<close> for a non-empty \<open>old\<close> (every call of the source): the
  occurrences are replaced from left to right and do not overlap.
\<close>

fun replace :: "string \<Rightarrow> string \<Rightarrow> string \<Rightarrow> string" where
  "replace old new [] = []"
| "replace old new (c # cs) =
    (if take (length old) (c # cs) = old
     then new @ replace old new (drop (length old - 1) cs)
     else c # replace old new cs)"

text \<open>
  \<^verbatim>\<open>s.title()\<close>: a letter that follows a letter is lower-cased, any other letter is
  upper-cased; the flag says whether the previous character was a letter.
\<close>

fun title_from :: "bool \<Rightarrow> string \<Rightarrow> string" where
  "title_from prev [] = []"
| "title_from prev (c # cs) =
    (if is_lower c then (if prev then c else to_upper c) # title_from True cs
     else if is_upper c then (if prev then to_lower c else c) # title_from True cs
     else c # title_from False cs)"

definition title :: "string \<Rightarrow> string" where
  "title s = title_from False s"

text \<open>\<^verbatim>\<open>str(n)\<close> for an integer, as \<^verbatim>\<open>{profile.age}\<close> renders it.\<close>

fun str_nat :: "nat \<Rightarrow> string" where
  "str_nat n =
    (if n < 10 then [char_of (48 + n)]
     else str_nat (n div 10) @ [char_of (48 + n mod 10)])"

definition str_int :: "int \<Rightarrow> string" where
  "str_int i = (if i < 0 then ''-'' @ str_nat (nat (- i)) else str_nat (nat i))"

text \<open>
  A concrete formatter for evaluating examples: it prints the integer part of a number.
  No theorem depends on how numbers are printed.
\<close>

definition plain_formatter :: formatter where
  "plain_formatter =
    \<lparr>fmt_comma0 = (\<lambda>x. str_int \<lfloor>x\<rfloor>), fmt_comma2 = (\<lambda>x. str_int \<lfloor>x\<rfloor>),
     fmt_fixed1 = (\<lambda>x. str_int \<lfloor>x\<rfloor>), fmt_str = (\<lambda>x. str_int \<lfloor>x\<rfloor>)\<rparr>"

text \<open>The bullet of the response templates, as the bytes of the source file.\<close>

definition bullet :: string where
  "bullet = [CHR 0xC3, CHR 0xA2, CHR 0xE2, CHR 0x82, CHR 0xAC, CHR 0xC2, CHR 0xA2]"

section \<open>ResponseGenerator\<close>

definition tone_styles :: "(string \<times> (string \<times> string) list) list" where
  "tone_styles =
    [(''student'',
      [(''greeting'',
        ''Hey there! '' @
        [CHR 0xC3, CHR 0xB0, CHR 0xC5, CHR 0xB8, CHR 0xE2, CHR 0x80, CHR 0x98, CHR 0xE2, CHR 0x80, CHR 0xB9]),
       (''complexity'', ''simple''),
       (''examples'', ''relatable_student''),
       (''encouragement'', ''motivational'')]),
     (''professional'',
      [(''greeting'', ''Good day,''),
       (''complexity'', ''detailed''),
       (''examples'', ''career_focused''),
       (''encouragement'', ''strategic'')])]"

text \<open>
  The \<^verbatim>\<open>re.sub\<close> call of \<^verbatim>\<open>adapt_tone\<close>: every dollar sign followed by at least one
  digit is matched together with the longest run of digits after it, and the scan goes on
  after the match. The replacement repeats the run of digits in both places of the
  template. The raw template string writes its apostrophe with a backslash before it; that
  is no escape of the template language, so the backslash stays in the output.
\<close>

function coffee_sub :: "string \<Rightarrow> string" where
  "coffee_sub [] = []"
| "coffee_sub (c # cs) =
    (if c = CHR ''$'' \<and> takeWhile is_digit cs \<noteq> []
     then ''$'' @ takeWhile is_digit cs @ '' (that'' @ [CHR 0x5C, CHR 0x27] @ ''s like '' @ takeWhile is_digit cs @
          '' cups of coffee! '' @
          [CHR 0xC3, CHR 0xA2, CHR 0xCB, CHR 0x9C, CHR 0xE2, CHR 0x80, CHR 0xA2] @ '')'' @
          coffee_sub (dropWhile is_digit cs)
     else c # coffee_sub cs)"
  by pat_completeness auto
termination
  by (relation "measure length") (auto simp: length_dropWhile_le less_Suc_eq_le)

text \<open>
  \<^verbatim>\<open>adapt_tone\<close>. The style looked up from \<^verbatim>\<open>tone_styles\<close> is not used by the source
  and the lookup cannot fail, so it is left out.
\<close>

definition adapt_tone :: "string \<Rightarrow> string \<Rightarrow> string" where
  "adapt_tone message utype =
    (if utype = ''student''
     then coffee_sub
            (replace ''It is recommended'' ''It's a good idea to''
              (replace ''You should'' ''You might want to'' message))
     else message)"

text \<open>
  \<^verbatim>\<open>generate_budget_summary\<close>. The subscript \<^verbatim>\<open>self.tone_styles[user_type]\<close> raises
  \<^verbatim>\<open>KeyError\<close> for a user type that is not a key.
\<close>

definition generate_budget_summary ::
  "formatter \<Rightarrow> budget_analysis \<Rightarrow> user_profile \<Rightarrow> py_error + string"
where
  "generate_budget_summary F analysis p =
    (case map_of tone_styles (user_type p) of
       None \<Rightarrow> Inl KeyError
     | Some style \<Rightarrow>
        (case map_of style ''greeting'' of
           None \<Rightarrow> Inl KeyError
         | Some greeting \<Rightarrow>
            let summary =
                  ''\<newline>'' @
                  greeting @ '' Here's your budget analysis:\<newline>'' @
                  ''\<newline>'' @
                  [CHR 0xC3, CHR 0xB0, CHR 0xC5, CHR 0xB8, CHR 0xE2, CHR 0x80, CHR 0x99, CHR 0xC2, CHR 0xB0] @
                  '' **Income & Spending Overview**\<newline>'' @
                  bullet @ '' Monthly Income: $'' @ fmt_comma2 F (total_income analysis) @
                  ''\<newline>'' @
                  bullet @ '' Total Expenses: $'' @
                  fmt_comma2 F (total_expenses analysis) @ ''\<newline>'' @
                  bullet @ '' Monthly Savings: $'' @ fmt_comma2 F (savings analysis) @
                  ''\<newline>'' @
                  bullet @ '' Savings Rate: '' @ fmt_fixed1 F (savings_rate analysis) @
                  ''%\<newline>'' @
                  ''\<newline>'' @
                  [CHR 0xC3, CHR 0xB0, CHR 0xC5, CHR 0xB8, CHR 0xE2, CHR 0x80, CHR 0x9C, CHR 0xC5, CHR 0xA0] @
                  '' **Budget Breakdown**\<newline>'' @
                  bullet @ '' Needs (Housing, Food, Transport): $'' @
                  fmt_comma2 F (needs_spending analysis) @ ''\<newline>'' @
                  bullet @ '' Wants (Entertainment, Shopping): $'' @
                  fmt_comma2 F (wants_spending analysis) @ ''\<newline>'' @
                  bullet @ '' Recommended Savings Target: $'' @
                  fmt_comma2 F (rec_savings (recommended analysis)) @
                  '' (20% of income)\<newline>'' @
                  ''\<newline>'' @
                  [CHR 0xC3, CHR 0xB0, CHR 0xC5, CHR 0xB8, CHR 0xC5, CHR 0xBD, CHR 0xC2, CHR 0xAF] @
                  '' **Budget Health: '' @
                  title (replace ''_'' '' '' (budget_health analysis)) @ ''**\<newline>'';
                summary' =
                  (if budget_health analysis = ''excellent'' then
                     summary @
                     ''\<newline>'' @
                     [CHR 0xC3, CHR 0xB0, CHR 0xC5, CHR 0xB8, CHR 0xC5, CHR 0x92, CHR 0xC5, CHR 0xB8] @
                     '' Outstanding work! You're exceeding savings goals.''
                   else if budget_health analysis = ''needs_improvement'' then
                     summary @
                     ''\<newline>'' @
                     [CHR 0xC3, CHR 0xA2, CHR 0xC5, CHR 0xA1, CHR 0xC2, CHR 0xA0, CHR 0xC3, CHR 0xAF, CHR 0xC2, CHR 0xB8] @
                     ''  Let's work on boosting that savings rate. Small changes can make a big difference!''
                   else summary)
            in Inr (adapt_tone summary' (user_type p))))"

text \<open>
  \<^verbatim>\<open>generate_spending_insights\<close>. \<^verbatim>\<open>sorted(..., key=lambda x: x[1], reverse=True)\<close> is a
  stable sort by descending amount. The percentage divides by the total of the expenses;
  Python raises \<^verbatim>\<open>ZeroDivisionError\<close> when that total is zero.
\<close>

definition generate_spending_insights ::
  "formatter \<Rightarrow> expense_dict \<Rightarrow> user_profile \<Rightarrow> py_error + string list"
where
  "generate_spending_insights F exps p =
    (let total = sum_values exps;
         sorted_expenses = sort_key (\<lambda>x. - snd x) exps;
         tip =
           (if map_of exps ''subscriptions'' \<noteq> None \<and> dict_get exps ''subscriptions'' 0 > 50
            then [[CHR 0xC3, CHR 0xB0, CHR 0xC5, CHR 0xB8, CHR 0xE2, CHR 0x80, CHR 0x9D] @
                  '' Review subscriptions - you might have services you're not using regularly.'']
            else [])
     in case sorted_expenses of
          [] \<Rightarrow> Inr (map (\<lambda>insight. adapt_tone insight (user_type p)) tip)
        | (highest_category, highest_amount) # _ \<Rightarrow>
           if total = 0 then Inl ZeroDivisionError
           else
             let percentage = (highest_amount / total) * 100;
                 insights =
                   [''Your highest expense is '' @ highest_category @ '': $'' @
                    fmt_comma2 F highest_amount @ '' ('' @ fmt_fixed1 F percentage @
                    ''% of total spending)''];
                 insights' =
                   (if highest_category \<in> set [''dining_out'', ''entertainment''] then
                      (if user_type p = ''student'' then
                         insights @
                         [[CHR 0xC3, CHR 0xB0, CHR 0xC5, CHR 0xB8, CHR 0xE2, CHR 0x80, CHR 0x99, CHR 0xC2, CHR 0xA1] @
                          '' Try cooking more meals at home or finding free campus activities to reduce this expense.'']
                       else
                         insights @
                         [[CHR 0xC3, CHR 0xB0, CHR 0xC5, CHR 0xB8, CHR 0xE2, CHR 0x80, CHR 0x99, CHR 0xC2, CHR 0xA1] @
                          '' Consider meal prepping or setting a monthly entertainment budget to control this expense.''])
                    else if highest_category = ''rent'' then
                      (if percentage > 30 then
                         insights @
                         [[CHR 0xC3, CHR 0xA2, CHR 0xC5, CHR 0xA1, CHR 0xC2, CHR 0xA0, CHR 0xC3, CHR 0xAF, CHR 0xC2, CHR 0xB8] @
                          ''  Housing costs exceed the recommended 30% of income. Consider roommates or relocating if possible.'']
                       else insights)
                    else insights)
             in Inr (map (\<lambda>insight. adapt_tone insight (user_type p)) (insights' @ tip)))"

section \<open>PersonalFinanceChatbot\<close>

text \<open>
  The chatbot object holds the profile store and the conversation history; the analyzer and
  the response generator have no mutable state. Each method takes the object and, where it
  assigns to it, returns the new one.
\<close>

record chatbot =
  user_profiles :: "string \<rightharpoonup> user_profile"
  conversation_history :: "string \<rightharpoonup> string list"

text \<open>
  \<^verbatim>\<open>create_user_profile\<close>; the keyword arguments are optional, and
  \<^verbatim>\<open>__post_init__\<close> replaces a missing dictionary or list by an empty one.
\<close>

definition create_user_profile ::
  "chatbot \<Rightarrow> string \<Rightarrow> string \<Rightarrow> int \<Rightarrow> real option \<Rightarrow> expense_dict option \<Rightarrow>
   string list option \<Rightarrow> string option \<Rightarrow> user_profile \<times> chatbot"
where
  "create_user_profile c user_id utype a inc exps goals risk =
    (let profile =
           \<lparr>user_type = utype, age = a, income = inc,
            expenses = (case exps of None \<Rightarrow> [] | Some e \<Rightarrow> e),
            financial_goals = (case goals of None \<Rightarrow> [] | Some g \<Rightarrow> g),
            risk_tolerance = (case risk of None \<Rightarrow> ''moderate'' | Some r \<Rightarrow> r)\<rparr>
     in (profile, c\<lparr>user_profiles := (user_profiles c)(user_id \<mapsto> profile)\<rparr>))"

text \<open>\<^verbatim>\<open>d.update(e)\<close>: a key that is present keeps its place, a new key goes to the end.\<close>

fun dict_set :: "expense_dict \<Rightarrow> string \<Rightarrow> real \<Rightarrow> expense_dict" where
  "dict_set [] k v = [(k, v)]"
| "dict_set ((k', v') # d) k v = (if k' = k then (k, v) # d else (k', v') # dict_set d k v)"

definition dict_update :: "expense_dict \<Rightarrow> expense_dict \<Rightarrow> expense_dict" where
  "dict_update d e = foldl (\<lambda>acc (k, v). dict_set acc k v) d e"

definition update_user_expenses :: "chatbot \<Rightarrow> string \<Rightarrow> expense_dict \<Rightarrow> chatbot" where
  "update_user_expenses c user_id exps =
    (case user_profiles c user_id of
       None \<Rightarrow> c
     | Some p \<Rightarrow>
        c\<lparr>user_profiles :=
            (user_profiles c)(user_id \<mapsto> p\<lparr>expenses := dict_update (expenses p) exps\<rparr>)\<rparr>)"

text \<open>
  The fixed replies. In the handlers, \<^verbatim>\<open>not user_profile.income\<close> holds when the income is
  \<^verbatim>\<open>None\<close> and when it is zero, and \<^verbatim>\<open>not user_profile.expenses\<close> when the dictionary is
  empty.
\<close>

definition need_income_tax :: string where
  "need_income_tax =
      ''I need your income information to calculate taxes. Please update your profile with your annual income.''"

definition need_income_budget :: string where
  "need_income_budget =
      ''I need your income and expense information to analyze your budget. Please update your profile.''"

definition need_income_investment :: string where
  "need_income_investment =
      ''I need your income information to provide investment advice. Please update your profile.''"

definition create_profile_first :: string where
  "create_profile_first = ''Please create your profile first using create_profile().''"

definition apology :: string where
  "apology =
      ''I'm sorry, I encountered an error processing your request. Please try again.''"

definition handle_tax_query :: "formatter \<Rightarrow> user_profile \<Rightarrow> string \<Rightarrow> py_error + string" where
  "handle_tax_query F p query =
    (case income p of
       None \<Rightarrow> Inr need_income_tax
     | Some inc \<Rightarrow>
        if inc = 0 then Inr need_income_tax
        else
          let tax_analysis = calculate_tax_estimate F inc ''single'';
              response =
                ''\<newline>'' @
                [CHR 0xC3, CHR 0xB0, CHR 0xC5, CHR 0xB8, CHR 0xE2, CHR 0x80, CHR 0x9C, CHR 0xE2, CHR 0x80, CHR 0xB9] @
                '' **Tax Estimate for $'' @ fmt_comma0 F inc @
                '' Annual Income**\<newline>'' @
                ''\<newline>'' @
                bullet @ '' Estimated Federal Tax: $'' @
                fmt_comma2 F (total_tax tax_analysis) @ ''\<newline>'' @
                bullet @ '' Effective Tax Rate: '' @
                fmt_fixed1 F (effective_rate tax_analysis) @ ''%\<newline>'' @
                bullet @ '' After-Tax Income: $'' @
                fmt_comma2 F (after_tax_income tax_analysis) @ ''\<newline>'' @
                ''\<newline>'' @
                [CHR 0xC3, CHR 0xB0, CHR 0xC5, CHR 0xB8, CHR 0xE2, CHR 0x80, CHR 0x99, CHR 0xC2, CHR 0xA1] @
                '' **Tax Planning Tips:**\<newline>'';
              response' =
                (if user_type p = ''student'' then
                   response @
                   ''\<newline>'' @
                   bullet @
                   '' Claim education credits (American Opportunity Credit up to $2,500)\<newline>'' @
                   bullet @
                   '' Keep receipts for textbooks and school supplies\<newline>'' @
                   bullet @ '' Consider a part-time job for work-study benefits\<newline>''
                 else
                   response @
                   ''\<newline>'' @
                   bullet @
                   '' Maximize 401(k) contributions to reduce taxable income\<newline>'' @
                   bullet @ '' Consider HSA contributions if available\<newline>'' @
                   bullet @ '' Track business expenses if self-employed\<newline>'' @
                   bullet @ '' Review tax-loss harvesting for investments\<newline>'')
          in Inr (adapt_tone response' (user_type p)))"

definition handle_budget_query :: "formatter \<Rightarrow> user_profile \<Rightarrow> string \<Rightarrow> py_error + string" where
  "handle_budget_query F p query =
    (case income p of
       None \<Rightarrow> Inr need_income_budget
     | Some inc \<Rightarrow>
        if inc = 0 \<or> expenses p = [] then Inr need_income_budget
        else
          let budget_analysis = analyze_budget inc (expenses p)
          in (case generate_budget_summary F budget_analysis p of
                Inl e \<Rightarrow> Inl e
              | Inr budget_summary \<Rightarrow>
                 (case generate_spending_insights F (expenses p) p of
                    Inl e \<Rightarrow> Inl e
                  | Inr spending_insights \<Rightarrow>
                     Inr (budget_summary @
                          (''\<newline>'' @
                           ''\<newline>'' @
                           [CHR 0xC3, CHR 0xB0, CHR 0xC5, CHR 0xB8, CHR 0xE2, CHR 0x80, CHR 0x9D] @
                           '' **Spending Insights:**\<newline>'') @
                          concat (map (\<lambda>insight. bullet @ '' '' @ insight @ ''\<newline>'')
                                    (take 3 spending_insights))))))"

definition render_suggestion :: "formatter \<Rightarrow> suggestion \<Rightarrow> string" where
  "render_suggestion F s =
      ''\<newline>'' @
      ''**'' @ sugg_type s @ ''**\<newline>'' @
      bullet @ '' Suggested Amount: $'' @ fmt_comma0 F (allocation s) @ ''\<newline>'' @
      bullet @ '' Risk Level: '' @ risk_level s @ ''\<newline>'' @
      bullet @ '' Expected Return: '' @ expected_return s @ ''\<newline>'' @
      bullet @ '' Why: '' @ reason s @ ''\<newline>'' @
      ''\<newline>''"

definition handle_investment_query ::
  "formatter \<Rightarrow> user_profile \<Rightarrow> string \<Rightarrow> py_error + string"
where
  "handle_investment_query F p query =
    (case income p of
       None \<Rightarrow> Inr need_income_investment
     | Some inc \<Rightarrow>
        if inc = 0 then Inr need_income_investment
        else
          let total_expenses = (if expenses p \<noteq> [] then sum_values (expenses p) else inc * 0.8);
              available_funds = max 0 ((inc - total_expenses) * 0.8)
          in if available_funds < 100 then
               Inr (adapt_tone
                      ''Focus on building an emergency fund first before investing. Aim to save at least $1,000 for emergencies.''
                      (user_type p))
             else
               let suggestions = generate_investment_suggestions p available_funds;
                   response =
                     ([CHR 0xC3, CHR 0xB0, CHR 0xC5, CHR 0xB8, CHR 0xC5, CHR 0xA1, CHR 0xE2, CHR 0x82, CHR 0xAC] @
                      '' **Investment Suggestions for $'' @ fmt_comma0 F available_funds @
                      ''**\<newline>'' @
                      ''\<newline>'') @
                     concat (map (render_suggestion F) suggestions) @
                     (''\<newline>'' @
                      [CHR 0xC3, CHR 0xA2, CHR 0xC5, CHR 0xA1, CHR 0xC2, CHR 0xA0, CHR 0xC3, CHR 0xAF, CHR 0xC2, CHR 0xB8] @
                      ''  Remember: Past performance doesn't guarantee future results. Consider consulting a financial advisor for personalized advice.'')
               in Inr (adapt_tone response (user_type p)))"

text \<open>
  \<^verbatim>\<open>_handle_savings_query\<close> has no guard on the income: with no expenses and no income,
  \<^verbatim>\<open>user_profile.income * 0.7\<close> multiplies \<^verbatim>\<open>None\<close> and raises \<^verbatim>\<open>TypeError\<close>.
\<close>

definition handle_savings_query :: "formatter \<Rightarrow> user_profile \<Rightarrow> string \<Rightarrow> py_error + string" where
  "handle_savings_query F p query =
    (case (if expenses p \<noteq> [] then Inr (sum_values (expenses p))
           else (case income p of None \<Rightarrow> Inl TypeError | Some inc \<Rightarrow> Inr (inc * 0.7))) of
       Inl e \<Rightarrow> Inl e
     | Inr monthly \<Rightarrow>
        let emergency_fund_target = monthly * 6;
            response =
              ''\<newline>'' @
              [CHR 0xC3, CHR 0xB0, CHR 0xC5, CHR 0xB8, CHR 0xC2, CHR 0xA6] @
              '' **Savings Strategy**\<newline>'' @
              ''\<newline>'' @
              ''**Emergency Fund Goal:** $'' @ fmt_comma0 F emergency_fund_target @
              ''\<newline>'' @
              ''(6 months of expenses)\<newline>'' @
              ''\<newline>'' @
              ''**Recommended Savings Accounts:**\<newline>'' @
              bullet @ '' High-Yield Savings: 4-5% APY\<newline>'' @
              bullet @ '' Money Market Account: 3-4% APY\<newline>'' @
              bullet @ '' CDs: 4-5% APY (if you won't need the money soon)\<newline>'' @
              ''\<newline>'';
            response' =
              (if user_type p = ''student'' then
                 response @
                 ''\<newline>'' @
                 ''**Student-Specific Tips:**\<newline>'' @
                 bullet @ '' Start with $1,000 emergency fund\<newline>'' @
                 bullet @ '' Use cashback credit cards responsibly\<newline>'' @
                 bullet @ '' Take advantage of student discounts\<newline>'' @
                 bullet @ '' Consider part-time work or internships\<newline>''
               else
                 response @
                 ''\<newline>'' @
                 ''**Professional Tips:**\<newline>'' @
                 bullet @ '' Automate savings transfers\<newline>'' @
                 bullet @ '' Save tax refunds and bonuses\<newline>'' @
                 bullet @ '' Consider employer 401(k) match as '' @ [CHR 0x22] @
                 ''free money'' @ [CHR 0x22] @ ''\<newline>'' @
                 bullet @ '' Set up separate accounts for different goals\<newline>'')
        in Inr (adapt_tone response' (user_type p)))"

definition general_advice :: "(string \<times> string) list" where
  "general_advice =
    [(''student'',
      ''\<newline>'' @
      [CHR 0xC3, CHR 0xB0, CHR 0xC5, CHR 0xB8, CHR 0xC5, CHR 0xBD, CHR 0xE2, CHR 0x80, CHR 0x9C] @
      '' **General Financial Tips for Students:**\<newline>'' @
      ''\<newline>'' @
      bullet @
      '' Create a simple budget with your income (jobs, financial aid)\<newline>'' @
      bullet @ '' Build credit responsibly with a student credit card\<newline>'' @
      bullet @ '' Take advantage of student discounts everywhere\<newline>'' @
      bullet @ '' Start an emergency fund, even if it's just $20/month\<newline>'' @
      bullet @
      '' Learn about investing early - time is your biggest advantage\<newline>'' @
      bullet @ '' Avoid unnecessary debt beyond student loans\<newline>''),
     (''professional'',
      ''\<newline>'' @
      [CHR 0xC3, CHR 0xB0, CHR 0xC5, CHR 0xB8, CHR 0xE2, CHR 0x80, CHR 0x99, CHR 0xC2, CHR 0xBC] @
      '' **General Financial Tips for Professionals:**\<newline>'' @
      ''\<newline>'' @
      bullet @ '' Follow the 50/30/20 rule (needs/wants/savings)\<newline>'' @
      bullet @ '' Maximize employer 401(k) match\<newline>'' @
      bullet @ '' Build 3-6 months emergency fund\<newline>'' @
      bullet @ '' Diversify investments across asset classes\<newline>'' @
      bullet @ '' Review and optimize insurance coverage\<newline>'' @
      bullet @ '' Plan for major life events (house, family, retirement)\<newline>'' @
      bullet @ '' Consider tax-advantaged accounts (HSA, IRA)\<newline>'')]"

definition handle_general_query :: "formatter \<Rightarrow> user_profile \<Rightarrow> string \<Rightarrow> py_error + string" where
  "handle_general_query F p query =
    (let response =
           (case map_of general_advice (user_type p) of
              Some r \<Rightarrow> r
            | None \<Rightarrow> (case map_of general_advice ''professional'' of
                          Some r \<Rightarrow> r | None \<Rightarrow> []))
     in Inr (adapt_tone response (user_type p)))"

text \<open>The body of the \<^verbatim>\<open>try\<close> block of \<^verbatim>\<open>process_query\<close>: the chain of keyword tests.\<close>

definition any_word_in :: "string list \<Rightarrow> string \<Rightarrow> bool" where
  "any_word_in ws s = list_ex (\<lambda>w. is_substring w s) ws"

definition dispatch :: "formatter \<Rightarrow> user_profile \<Rightarrow> string \<Rightarrow> string \<Rightarrow> py_error + string" where
  "dispatch F p query query_lower =
    (if any_word_in [''tax'', ''taxes'', ''federal''] query_lower then
       handle_tax_query F p query
     else if any_word_in [''budget'', ''spending'', ''expenses''] query_lower then
       handle_budget_query F p query
     else if any_word_in [''invest'', ''investment'', ''portfolio''] query_lower then
       handle_investment_query F p query
     else if any_word_in [''save'', ''savings'', ''emergency fund''] query_lower then
       handle_savings_query F p query
     else handle_general_query F p query)"

text \<open>
  \<^verbatim>\<open>process_query\<close>. The result is \<open>Inl e\<close> if the call raises \<open>e\<close> to its caller and
  \<open>Inr s\<close> if it returns the string \<open>s\<close>; the second component is the chatbot object after
  the call. \<^verbatim>\<open>except Exception\<close> turns every exception of the \<^verbatim>\<open>try\<close> block into the
  apology (the log line it writes is not part of the model).
\<close>

definition process_query ::
  "formatter \<Rightarrow> chatbot \<Rightarrow> string \<Rightarrow> string \<Rightarrow> (py_error + string) \<times> chatbot"
where
  "process_query F c user_id query =
    (case user_profiles c user_id of
       None \<Rightarrow> (Inr create_profile_first, c)
     | Some p \<Rightarrow>
        let query_lower = lower query
        in (case dispatch F p query query_lower of
              Inl e \<Rightarrow> (Inr apology, c)
            | Inr response \<Rightarrow> (Inr response, c)))"

text \<open>
  \<^verbatim>\<open>get_user_profile_summary\<close>. The conditional \<^verbatim>\<open>if profile.income else "Not set"\<close> is
  text inside the f-string, so \<^verbatim>\<open>{profile.income:,.2f}\<close> is formatted for every profile;
  formatting \<^verbatim>\<open>None\<close> with that specification raises \<^verbatim>\<open>TypeError\<close>.
\<close>

definition no_profile_found :: string where
  "no_profile_found = ''No profile found.''"

definition get_user_profile_summary :: "formatter \<Rightarrow> chatbot \<Rightarrow> string \<Rightarrow> py_error + string" where
  "get_user_profile_summary F c user_id =
    (case user_profiles c user_id of
       None \<Rightarrow> Inr no_profile_found
     | Some profile \<Rightarrow>
        (case income profile of
           None \<Rightarrow> Inl TypeError
         | Some inc \<Rightarrow>
            let summary =
                  ''\<newline>'' @
                  [CHR 0xC3, CHR 0xB0, CHR 0xC5, CHR 0xB8, CHR 0xE2, CHR 0x80, CHR 0x98, CHR 0xC2, CHR 0xA4] @
                  '' **Profile Summary**\<newline>'' @
                  bullet @ '' User Type: '' @ title (user_type profile) @ ''\<newline>'' @
                  bullet @ '' Age: '' @ str_int (age profile) @ ''\<newline>'' @
                  bullet @ '' Income: $'' @ fmt_comma2 F inc @ ''/year'' @ [CHR 0x22] @
                  '' if profile.income else '' @ [CHR 0x22] @ ''Not set'' @ [CHR 0x22] @
                  ''\<newline>'' @
                  bullet @ '' Risk Tolerance: '' @ title (risk_tolerance profile) @
                  ''\<newline>''
            in if expenses profile \<noteq> [] then
                 Inr (summary @
                      (bullet @ '' Monthly Expenses: $'' @
                      fmt_comma2 F (sum_values (expenses profile))))
               else Inr summary))"

section \<open>Properties of the tax estimate\<close>

lemma contiguous_single: "contiguous 0 single_brackets"
  by (simp add: single_brackets_def)

lemma brackets_lookup:
  "(case map_of tax_brackets_2024 fs of Some bs \<Rightarrow> bs | None \<Rightarrow> single_brackets) = single_brackets"
  by (simp add: tax_brackets_2024_def)





lemma calc_unfold:
  "calculate_tax_estimate F inc fs =
     \<lparr>total_tax = fst (tax_loop F inc single_brackets 0 []),
      effective_rate =
        (if inc > 0 then (fst (tax_loop F inc single_brackets 0 []) / inc) * 100 else 0),
      after_tax_income = inc - fst (tax_loop F inc single_brackets 0 []),
      breakdown = snd (tax_loop F inc single_brackets 0 [])\<rparr>"
  by (simp add: calculate_tax_estimate_def brackets_lookup split_beta Let_def)


lemma tax_15000:
  "tax_loop F 15000 single_brackets 0 [] =
     (1580, [mk_entry F 15000 (0, Some 11000, 0.10), mk_entry F 15000 (11000, Some 44725, 0.12)])"
  by (simp add: single_brackets_def min_upper_def Let_def)





text \<open>
  Claim C7, as stated: for the income 15000 the breakdown is not empty and the effective
  rate is approximately 9.53 percent. The rate the code computes is 1580 / 15000, that is
  10.53 percent, more than a whole percentage point away from 9.53.
\<close>

theorem scenario_15000_not_953:
  "\<not> (breakdown (calculate_tax_estimate plain_formatter 15000 ''single'') \<noteq> []
      \<and> \<bar>effective_rate (calculate_tax_estimate plain_formatter 15000 ''single'') - 9.53\<bar> \<le> 1)"
  by (simp add: calc_unfold tax_15000)


text \<open>
  Claim C7, amended: for the income 15000 the breakdown is not empty and the effective rate
  is 158 / 15, approximately 10.53 percent.
\<close>

theorem scenario_15000:
  "breakdown (calculate_tax_estimate F 15000 fs) \<noteq> []
   \<and> effective_rate (calculate_tax_estimate F 15000 fs) = 158 / 15
   \<and> \<bar>effective_rate (calculate_tax_estimate F 15000 fs) - 10.53\<bar> \<le> 0.005"
  by (simp add: calc_unfold tax_15000)

section \<open>Properties of the budget analysis\<close>

lemma dict_get_Cons:
  "dict_get ((k, v) # e) c d = (if c = k then v else dict_get e c d)"
  by (simp add: dict_get_def)

lemma dict_get_nonneg:
  "\<forall>x \<in> set e. 0 \<le> snd x \<Longrightarrow> 0 \<le> dict_get e c 0"
  by (induction e) (auto simp: dict_get_Cons dict_get_def)

lemma whitelist_sum_other:
  "k \<notin> set W \<Longrightarrow>
   sum_list (map (\<lambda>c. dict_get ((k, v) # e) c 0) W) = sum_list (map (\<lambda>c. dict_get e c 0) W)"
  by (induction W) (auto simp: dict_get_Cons)

lemma whitelist_sum_Cons:
  assumes "distinct W" and "\<forall>x \<in> set e. 0 \<le> snd x"
  shows "sum_list (map (\<lambda>c. dict_get ((k, v) # e) c 0) W)
           \<le> (if k \<in> set W then v else 0) + sum_list (map (\<lambda>c. dict_get e c 0) W)"
  using assms(1)
proof (induction W)
  case Nil
  then show ?case by simp
next
  case (Cons c W)
  show ?case
  proof (cases "c = k")
    case True
    then have "k \<notin> set W" using Cons.prems by simp
    then have "sum_list (map (\<lambda>c. dict_get ((k, v) # e) c 0) W)
                 = sum_list (map (\<lambda>c. dict_get e c 0) W)"
      by (rule whitelist_sum_other)
    then show ?thesis
      using True dict_get_nonneg[OF assms(2), of k] by (simp add: dict_get_Cons)
  next
    case False
    then show ?thesis using Cons by (auto simp: dict_get_Cons)
  qed
qed

lemma whitelist_sum_le:
  assumes "distinct W"
  shows "\<forall>x \<in> set e. 0 \<le> snd x \<Longrightarrow> sum_list (map (\<lambda>c. dict_get e c 0) W) \<le> sum_values e"
proof (induction e)
  case Nil
  then show ?case by (simp add: sum_values_def dict_get_def)
next
  case (Cons x e)
  obtain k v where x: "x = (k, v)" by (cases x)
  have nn: "\<forall>y \<in> set e. 0 \<le> snd y" and v: "0 \<le> v" using Cons.prems x by auto
  have "sum_list (map (\<lambda>c. dict_get ((k, v) # e) c 0) W)
          \<le> (if k \<in> set W then v else 0) + sum_list (map (\<lambda>c. dict_get e c 0) W)"
    by (rule whitelist_sum_Cons[OF assms nn])
  also have "\<dots> \<le> v + sum_values e" using Cons.IH[OF nn] v by simp
  finally show ?case using x by (simp add: sum_values_def)
qed

lemma whitelist_sum_eq_only:
  assumes "distinct W"
  shows "\<forall>x \<in> set e. 0 \<le> snd x \<Longrightarrow> sum_list (map (\<lambda>c. dict_get e c 0) W) = sum_values e \<Longrightarrow>
         \<forall>x \<in> set e. snd x \<noteq> 0 \<longrightarrow> fst x \<in> set W"
proof (induction e)
  case Nil
  then show ?case by simp
next
  case (Cons x e)
  obtain k v where x: "x = (k, v)" by (cases x)
  have nn: "\<forall>y \<in> set e. 0 \<le> snd y" and v: "0 \<le> v" using Cons.prems(1) x by auto
  have a: "sum_list (map (\<lambda>c. dict_get ((k, v) # e) c 0) W)
          \<le> (if k \<in> set W then v else 0) + sum_list (map (\<lambda>c. dict_get e c 0) W)"
    by (rule whitelist_sum_Cons[OF assms nn])
  have b: "sum_list (map (\<lambda>c. dict_get e c 0) W) \<le> sum_values e"
    by (rule whitelist_sum_le[OF assms nn])
  have c: "sum_list (map (\<lambda>c. dict_get ((k, v) # e) c 0) W) = v + sum_values e"
    using Cons.prems(2) x by (simp add: sum_values_def)
  have eq: "sum_list (map (\<lambda>c. dict_get e c 0) W) = sum_values e"
    using a b c v by (simp split: if_splits)
  have kv: "v \<noteq> 0 \<longrightarrow> k \<in> set W"
    using a b c v by (simp split: if_splits)
  from Cons.IH[OF nn eq] kv show ?case using x by simp
qed

lemma distinct_whitelists: "distinct (needs_categories @ wants_categories)"
  by (simp add: needs_categories_def wants_categories_def)

section \<open>Properties of the investment suggestions\<close>

text \<open>
  Claim C6. For a profile of the professional segment whose risk tolerance is neither
  \<^verbatim>\<open>low\<close> nor \<^verbatim>\<open>high\<close> (so \<^verbatim>\<open>moderate\<close> or any unrecognised value), the list of
  suggestions is empty, whatever the available funds.
\<close>

theorem professional_moderate_empty:
  assumes "user_type p = ''professional''" and "risk_tolerance p \<notin> {''low'', ''high''}"
  shows "generate_investment_suggestions p funds = []"
  using assms by (simp add: generate_investment_suggestions_def)

theorem professional_moderate_empty_witness:
  "generate_investment_suggestions
     \<lparr>user_type = ''professional'', age = 28, income = Some 75000, expenses = [],
      financial_goals = [], risk_tolerance = ''moderate''\<rparr> 2000 = []"
  using professional_moderate_empty
    [of "\<lparr>user_type = ''professional'', age = 28, income = Some 75000, expenses = [],
          financial_goals = [], risk_tolerance = ''moderate''\<rparr>" 2000]
  by simp

section \<open>Properties of the profile summary\<close>

text \<open>
  Claim C8 says that \<^verbatim>\<open>get_user_profile_summary\<close> returns a formatted snapshot for every
  stored profile, also when the income is absent. For the profile that
  \<^verbatim>\<open>create_user_profile("student_123", "student", 20)\<close> stores, the call raises
  \<^verbatim>\<open>TypeError\<close> instead.
\<close>

theorem summary_raises_without_income:
  "get_user_profile_summary plain_formatter
     (snd (create_user_profile \<lparr>user_profiles = Map.empty, conversation_history = Map.empty\<rparr>
            ''student_123'' ''student'' 20 None None None None))
     ''student_123'' = Inl TypeError"
  by (simp add: get_user_profile_summary_def create_user_profile_def Let_def)

section \<open>Properties of the query router\<close>





lemma savings_keyword_example:
  "\<not> any_word_in [''tax'', ''taxes'', ''federal''] (lower ''How should I save money?'')"
  "\<not> any_word_in [''budget'', ''spending'', ''expenses''] (lower ''How should I save money?'')"
  "\<not> any_word_in [''invest'', ''investment'', ''portfolio''] (lower ''How should I save money?'')"
  "any_word_in [''save'', ''savings'', ''emergency fund''] (lower ''How should I save money?'')"
  by (simp_all add: any_word_in_def lower_def to_lower_def is_upper_def)


lemma tax_keyword_example:
  "any_word_in [''tax'', ''taxes'', ''federal''] (lower ''How much will I pay in taxes?'')"
  by (simp add: any_word_in_def lower_def to_lower_def is_upper_def)

text \<open>
  The tone adapter keeps the first character of a message unless that character could start
  one of its three patterns; the fixed replies that ask for more information start with
  the letter I, the composed responses with a line feed, the letter F or the byte C3.
\<close>

lemma replace_keeps_head:
  "old \<noteq> [] \<Longrightarrow> c \<noteq> hd old \<Longrightarrow> replace old new (c # cs) = c # replace old new cs"
  by (cases old) auto

lemma adapt_tone_keeps_head:
  assumes "c \<noteq> CHR ''Y''" and "c \<noteq> CHR ''I''" and "c \<noteq> CHR ''$''"
  shows "\<exists>r. adapt_tone (c # cs) t = c # r"
  using assms by (simp add: adapt_tone_def replace_keeps_head)

lemma need_income_hd:
  "hd need_income_tax = CHR ''I''"
  "hd need_income_budget = CHR ''I''"
  "hd need_income_investment = CHR ''I''"
  by (simp_all add: need_income_tax_def need_income_budget_def need_income_investment_def)

lemma tax_query_head:
  assumes "income p = Some inc" and "inc \<noteq> 0"
  shows "\<exists>r. handle_tax_query F p q = Inr (CHR 0x0A # r)"
proof -
  have "\<exists>r. adapt_tone (CHR 0x0A # cs) t = CHR 0x0A # r" for cs t
    by (rule adapt_tone_keeps_head) simp_all
  then show ?thesis using assms
    by (simp add: handle_tax_query_def Let_def)
qed

lemma investment_query_head:
  assumes "income p = Some inc" and "inc \<noteq> 0"
  shows "\<exists>r. handle_investment_query F p q = Inr (CHR ''F'' # r)
           \<or> handle_investment_query F p q = Inr (CHR 0xC3 # r)"
proof -
  have f: "\<exists>r. adapt_tone (CHR ''F'' # cs) t = CHR ''F'' # r" for cs t
    by (rule adapt_tone_keeps_head) simp_all
  have g: "\<exists>r. adapt_tone (CHR 0xC3 # cs) t = CHR 0xC3 # r" for cs t
    by (rule adapt_tone_keeps_head) simp_all
  show ?thesis using assms f g
    by (simp add: handle_investment_query_def Let_def) blast
qed

lemma budget_summary_head:
  "generate_budget_summary F a p = Inr s \<Longrightarrow> \<exists>r. s = CHR 0x0A # r"
proof -
  have n: "\<exists>r. adapt_tone (CHR 0x0A # cs) t = CHR 0x0A # r" for cs t
    by (rule adapt_tone_keeps_head) simp_all
  assume "generate_budget_summary F a p = Inr s"
  then show ?thesis using n
    by (auto simp: generate_budget_summary_def Let_def split: option.splits if_splits)
qed

lemma budget_query_head:
  assumes "income p = Some inc" and "inc \<noteq> 0" and "expenses p \<noteq> []"
    and "handle_budget_query F p q = Inr s"
  shows "\<exists>r. s = CHR 0x0A # r"
proof -
  obtain b i where b: "generate_budget_summary F (analyze_budget inc (expenses p)) p = Inr b"
    and s: "s = b @ i"
    using assms by (auto simp: handle_budget_query_def Let_def split: sum.splits)
  obtain r where "b = CHR 0x0A # r" using budget_summary_head[OF b] by blast
  then show ?thesis using s by simp
qed

text \<open>
  Claim C1. For every chatbot state, identifier and query, \<^verbatim>\<open>process_query\<close> returns a
  string and raises nothing; for an unknown identifier the string is the fixed request to
  create a profile first; and whenever the handler chosen by the keyword tests raises an
  exception, the string is the fixed apology.
\<close>

theorem process_query_total:
  "(\<exists>s. fst (process_query F c uid q) = Inr s)
   \<and> (user_profiles c uid = None \<longrightarrow> fst (process_query F c uid q) = Inr create_profile_first)
   \<and> (\<forall>p e. user_profiles c uid = Some p \<longrightarrow> dispatch F p q (lower q) = Inl e \<longrightarrow>
         fst (process_query F c uid q) = Inr apology)"
  by (auto simp: process_query_def Let_def split: option.splits sum.splits)

theorem process_query_total_witness:
  "fst (process_query plain_formatter
         \<lparr>user_profiles = Map.empty, conversation_history = Map.empty\<rparr>
         ''student_123'' ''How should I save money?'') = Inr create_profile_first
   \<and> dispatch plain_formatter
         \<lparr>user_type = ''student'', age = 20, income = None, expenses = [],
          financial_goals = [], risk_tolerance = ''moderate''\<rparr>
         ''How should I save money?'' (lower ''How should I save money?'') = Inl TypeError
   \<and> fst (process_query plain_formatter
         \<lparr>user_profiles =
            [''student_123'' \<mapsto>
               \<lparr>user_type = ''student'', age = 20, income = None, expenses = [],
                financial_goals = [], risk_tolerance = ''moderate''\<rparr>],
          conversation_history = Map.empty\<rparr>
         ''student_123'' ''How should I save money?'') = Inr apology"
proof -
  let ?p = "\<lparr>user_type = ''student'', age = 20, income = None, expenses = [],
          financial_goals = [], risk_tolerance = ''moderate''\<rparr>"
  have d: "dispatch plain_formatter ?p ''How should I save money?''
             (lower ''How should I save money?'') = Inl TypeError"
    using savings_keyword_example by (simp add: dispatch_def handle_savings_query_def)
  show ?thesis
    using d
      process_query_total [of plain_formatter
        "\<lparr>user_profiles = Map.empty, conversation_history = Map.empty\<rparr>"
        "''student_123''" "''How should I save money?''"]
      process_query_total [of plain_formatter
        "\<lparr>user_profiles = [''student_123'' \<mapsto> ?p], conversation_history = Map.empty\<rparr>"
        "''student_123''" "''How should I save money?''"]
    by simp
qed

text \<open>
  Claim C9. \<^verbatim>\<open>process_query\<close> leaves the chatbot object as it was: every stored profile,
  with all its fields, and the conversation history are the same after the call, whichever
  branch the call takes.
\<close>

theorem process_query_frame: "snd (process_query F c uid q) = c"
  by (simp add: process_query_def Let_def split: option.splits sum.splits)





text \<open>
  Claim C2, as stated: the tax path returns its fixed request for the income exactly when
  the income is absent, and an income of 0 proceeds to the analyzer. The guard of the
  handlers is \<^verbatim>\<open>not user_profile.income\<close>, which also holds for the income 0: a profile
  whose income is present and 0 gets the fixed request.
\<close>

theorem zero_income_gets_guidance:
  "income \<lparr>user_type = ''student'', age = 20, income = Some 0, expenses = [],
           financial_goals = [], risk_tolerance = ''moderate''\<rparr> \<noteq> None
   \<and> handle_tax_query plain_formatter
       \<lparr>user_type = ''student'', age = 20, income = Some 0, expenses = [],
        financial_goals = [], risk_tolerance = ''moderate''\<rparr>
       ''How much will I pay in taxes?'' = Inr need_income_tax"
  by (simp add: handle_tax_query_def)

text \<open>
  Claim C2, amended: the tax and the investment path return their fixed request for more
  information exactly when the income is absent or 0, and the budget path exactly when the
  income is absent or 0 or the expense mapping is empty; in particular the query
  \<^verbatim>\<open>How much will I pay in taxes?\<close> for a stored profile with no income returns the
  fixed request of the tax path.
\<close>

theorem guidance_when_income_falsy:
  "(handle_tax_query F p q = Inr need_income_tax \<longleftrightarrow> income p = None \<or> income p = Some 0)
   \<and> (handle_investment_query F p q = Inr need_income_investment
        \<longleftrightarrow> income p = None \<or> income p = Some 0)
   \<and> (handle_budget_query F p q = Inr need_income_budget
        \<longleftrightarrow> income p = None \<or> income p = Some 0 \<or> expenses p = [])
   \<and> (\<forall>c uid. user_profiles c uid = Some p \<longrightarrow> income p = None \<longrightarrow>
         fst (process_query F c uid ''How much will I pay in taxes?'') = Inr need_income_tax)"
proof (intro conjI)
  show "handle_tax_query F p q = Inr need_income_tax \<longleftrightarrow> income p = None \<or> income p = Some 0"
  proof (cases "income p")
    case None
    then show ?thesis by (simp add: handle_tax_query_def)
  next
    case (Some inc)
    show ?thesis
    proof (cases "inc = 0")
      case True
      then show ?thesis using Some by (simp add: handle_tax_query_def)
    next
      case False
      obtain r where "handle_tax_query F p q = Inr (CHR 0x0A # r)"
        using tax_query_head[OF Some False] by blast
      moreover have "hd (CHR 0x0A # r) \<noteq> hd need_income_tax"
        by (simp add: need_income_hd)
      ultimately have "handle_tax_query F p q \<noteq> Inr need_income_tax"
        by (auto simp del: list.sel)
      then show ?thesis using Some False by simp
    qed
  qed
next
  show "handle_investment_query F p q = Inr need_income_investment
        \<longleftrightarrow> income p = None \<or> income p = Some 0"
  proof (cases "income p")
    case None
    then show ?thesis by (simp add: handle_investment_query_def)
  next
    case (Some inc)
    show ?thesis
    proof (cases "inc = 0")
      case True
      then show ?thesis using Some by (simp add: handle_investment_query_def)
    next
      case False
      obtain r where "handle_investment_query F p q = Inr (CHR ''F'' # r)
           \<or> handle_investment_query F p q = Inr (CHR 0xC3 # r)"
        using investment_query_head[OF Some False] by blast
      moreover have "hd (CHR ''F'' # r) \<noteq> hd need_income_investment"
        and "hd (CHR 0xC3 # r) \<noteq> hd need_income_investment"
        by (simp_all add: need_income_hd)
      ultimately have "handle_investment_query F p q \<noteq> Inr need_income_investment"
        by (auto simp del: list.sel)
      then show ?thesis using Some False by simp
    qed
  qed
next
  show "handle_budget_query F p q = Inr need_income_budget
        \<longleftrightarrow> income p = None \<or> income p = Some 0 \<or> expenses p = []"
  proof (cases "income p")
    case None
    then show ?thesis by (simp add: handle_budget_query_def)
  next
    case (Some inc)
    show ?thesis
    proof (cases "inc = 0 \<or> expenses p = []")
      case True
      then show ?thesis using Some by (auto simp: handle_budget_query_def)
    next
      case False
      then have n: "inc \<noteq> 0" and e: "expenses p \<noteq> []" by simp_all
      have "handle_budget_query F p q \<noteq> Inr need_income_budget"
      proof
        assume "handle_budget_query F p q = Inr need_income_budget"
        from budget_query_head[OF Some n e this]
        obtain r where "need_income_budget = CHR 0x0A # r" by blast
        then have "hd need_income_budget = CHR 0x0A" by (metis list.sel(1))
        then show False by (simp add: need_income_hd)
      qed
      then show ?thesis using Some n e by simp
    qed
  qed
next
  show "\<forall>c uid. user_profiles c uid = Some p \<longrightarrow> income p = None \<longrightarrow>
         fst (process_query F c uid ''How much will I pay in taxes?'') = Inr need_income_tax"
    using tax_keyword_example
    by (simp add: process_query_def dispatch_def handle_tax_query_def Let_def)
qed

theorem guidance_when_income_falsy_witness:
  "handle_tax_query plain_formatter
     \<lparr>user_type = ''student'', age = 20, income = None, expenses = [],
      financial_goals = [], risk_tolerance = ''moderate''\<rparr>
     ''How much will I pay in taxes?'' = Inr need_income_tax
   \<and> fst (process_query plain_formatter
        \<lparr>user_profiles =
           [''student_123'' \<mapsto>
              \<lparr>user_type = ''student'', age = 20, income = None, expenses = [],
               financial_goals = [], risk_tolerance = ''moderate''\<rparr>],
         conversation_history = Map.empty\<rparr>
        ''student_123'' ''How much will I pay in taxes?'') = Inr need_income_tax"
  using guidance_when_income_falsy
    [of plain_formatter
        "\<lparr>user_type = ''student'', age = 20, income = None, expenses = [],
          financial_goals = [], risk_tolerance = ''moderate''\<rparr>"
        "''How much will I pay in taxes?''"]
  by simp

section \<open>Properties of binary64 rounding\<close>

text \<open>
  Rounding to the nearest integer is off by at most one half; rounding to a double is off by
  at most half a unit in the last place, which is \<open>2^-53\<close> times the number or \<open>2^-1075\<close>,
  whichever is larger. A non-negative number below \<open>2^-1075\<close> underflows to 0, and the
  natural numbers below \<open>2^53\<close> are doubles.
\<close>

lemma rhe_err: "\<bar>of_int (rhe y) - y\<bar> \<le> 1 / 2"
  unfolding rhe_def Let_def by (auto simp: abs_if) linarith+

lemma rhe_ge_floor: "\<lfloor>y\<rfloor> \<le> rhe y"
  unfolding rhe_def Let_def by auto

lemma rhe_nonneg: "0 \<le> y \<Longrightarrow> 0 \<le> rhe y"
  using rhe_ge_floor[of y] by (smt (verit) zero_le_floor)

lemma rhe_of_int: "rhe (of_int n) = n"
  unfolding rhe_def Let_def by simp

lemma rhe_small: "0 \<le> y \<Longrightarrow> y < 1 / 2 \<Longrightarrow> rhe y = 0"
proof -
  assume a: "0 \<le> y" "y < 1 / 2"
  then have "\<lfloor>y\<rfloor> = 0" by (simp add: floor_eq_iff)
  then show ?thesis using a unfolding rhe_def Let_def by simp
qed

lemma rhe_ge_one: "1 / 2 < y \<Longrightarrow> 1 \<le> rhe y"
proof -
  assume a: "1 / 2 < y"
  have "\<bar>of_int (rhe y) - y\<bar> \<le> 1 / 2" by (rule rhe_err)
  then have "0 < (of_int (rhe y) :: real)" using a by linarith
  then show ?thesis by simp
qed

lemma pow2_pos: "0 < pow2 k"
  by (simp add: pow2_def)

lemma pow2_add: "pow2 (a + b) = pow2 a * pow2 b"
  by (simp add: pow2_def powr_add)

lemma pow2_mono: "a \<le> b \<Longrightarrow> pow2 a \<le> pow2 b"
  by (simp add: pow2_def)

lemma pow2_strict_mono: "a < b \<Longrightarrow> pow2 a < pow2 b"
  by (simp add: pow2_def)

lemma pow2_0: "pow2 0 = 1"
  by (simp add: pow2_def)

lemma pow2_1: "pow2 1 = 2"
  by (simp add: pow2_def)

lemma pow2_m1: "pow2 (- 1) = 1 / 2"
  by (simp add: pow2_def powr_minus field_simps)

lemma pow2_half: "pow2 (k - 1) = pow2 k / 2"
  using pow2_add[of k "- 1"] by (simp add: pow2_m1)

lemma pow_floor_log_le: "x \<noteq> 0 \<Longrightarrow> pow2 \<lfloor>log 2 \<bar>x\<bar>\<rfloor> \<le> \<bar>x\<bar>"
  using floor_log_eq_powr_iff[of "\<bar>x\<bar>" 2 "\<lfloor>log 2 \<bar>x\<bar>\<rfloor>"] by (simp add: pow2_def)

lemma lt_pow_floor_log: "x \<noteq> 0 \<Longrightarrow> \<bar>x\<bar> < pow2 (\<lfloor>log 2 \<bar>x\<bar>\<rfloor> + 1)"
  using floor_log_eq_powr_iff[of "\<bar>x\<bar>" 2 "\<lfloor>log 2 \<bar>x\<bar>\<rfloor>"] by (simp add: pow2_def)

lemma floor_log_eq: "0 < x \<Longrightarrow> pow2 k \<le> x \<Longrightarrow> x < pow2 (k + 1) \<Longrightarrow> \<lfloor>log 2 \<bar>x\<bar>\<rfloor> = k"
  using floor_log_eq_powr_iff[of "\<bar>x\<bar>" 2 k] by (simp add: pow2_def)

lemma b64_exp_bound:
  assumes "x \<noteq> 0"
  shows "pow2 (b64_exp x) \<le> max (pow2 (- 1074)) (\<bar>x\<bar> * pow2 (- 52))"
proof (cases "\<lfloor>log 2 \<bar>x\<bar>\<rfloor> - 52 \<le> - 1074")
  case True
  then have "b64_exp x = - 1074" by (simp add: b64_exp_def)
  then show ?thesis by simp
next
  case False
  then have e: "b64_exp x = \<lfloor>log 2 \<bar>x\<bar>\<rfloor> + (- 52)" by (simp add: b64_exp_def)
  have "pow2 (\<lfloor>log 2 \<bar>x\<bar>\<rfloor> + (- 52)) = pow2 \<lfloor>log 2 \<bar>x\<bar>\<rfloor> * pow2 (- 52)"
    by (rule pow2_add)
  also have "\<dots> \<le> \<bar>x\<bar> * pow2 (- 52)"
    using pow_floor_log_le[OF assms] pow2_pos[of "- 52"] by (simp add: mult_right_mono)
  finally show ?thesis using e by simp
qed

lemma rnd_err: "\<bar>rnd x - x\<bar> \<le> max (pow2 (- 1075)) (\<bar>x\<bar> * pow2 (- 53))"
proof (cases "x = 0")
  case True
  then show ?thesis using pow2_pos[of "- 1075"] by (simp add: rnd_def)
next
  case False
  let ?p = "pow2 (b64_exp x)"
  have p: "0 < ?p" by (rule pow2_pos)
  have "rnd x - x = (of_int (rhe (x / ?p)) - x / ?p) * ?p"
    using False p by (simp add: rnd_def left_diff_distrib)
  then have "\<bar>rnd x - x\<bar> = \<bar>of_int (rhe (x / ?p)) - x / ?p\<bar> * ?p"
    using p by (simp add: abs_mult)
  also have "\<dots> \<le> (1 / 2) * ?p"
    using rhe_err[of "x / ?p"] p by (intro mult_right_mono) auto
  also have "\<dots> \<le> (1 / 2) * max (pow2 (- 1074)) (\<bar>x\<bar> * pow2 (- 52))"
    using b64_exp_bound[OF False] by simp
  also have "\<dots> = max (pow2 (- 1075)) (\<bar>x\<bar> * pow2 (- 53))"
  proof -
    have a: "pow2 (- 1074) = 2 * pow2 (- 1075)" using pow2_half[of "- 1074"] by simp
    have b: "pow2 (- 52) = 2 * pow2 (- 53)" using pow2_half[of "- 52"] by simp
    show ?thesis unfolding a b by (auto simp: max_def)
  qed
  finally show ?thesis .
qed

lemma rnd_nonneg: "0 \<le> x \<Longrightarrow> 0 \<le> rnd x"
  using pow2_pos[of "b64_exp x"] by (simp add: rnd_def rhe_nonneg)

lemma b64_exp_tiny: "x \<noteq> 0 \<Longrightarrow> \<bar>x\<bar> < pow2 (- 1021) \<Longrightarrow> b64_exp x = - 1074"
proof -
  assume a: "x \<noteq> 0" "\<bar>x\<bar> < pow2 (- 1021)"
  have "pow2 \<lfloor>log 2 \<bar>x\<bar>\<rfloor> < pow2 (- 1021)"
    using pow_floor_log_le[OF a(1)] a(2) by linarith
  then have "\<lfloor>log 2 \<bar>x\<bar>\<rfloor> < - 1021"
    using pow2_mono[of "- 1021" "\<lfloor>log 2 \<bar>x\<bar>\<rfloor>"] by linarith
  then show ?thesis unfolding b64_exp_def by linarith
qed

lemma rnd_underflow: "0 \<le> x \<Longrightarrow> x < pow2 (- 1075) \<Longrightarrow> rnd x = 0"
proof (cases "x = 0")
  case True
  then show ?thesis by (simp add: rnd_def)
next
  case False
  assume a: "0 \<le> x" "x < pow2 (- 1075)"
  have "pow2 (- 1075) \<le> pow2 (- 1021)" by (rule pow2_mono) simp
  then have e: "b64_exp x = - 1074" using a False by (intro b64_exp_tiny) auto
  have "x / pow2 (- 1074) < 1 / 2"
    using a pow2_half[of "- 1074"] pow2_pos[of "- 1074"] by (simp add: field_simps)
  moreover have "0 \<le> x / pow2 (- 1074)" using a pow2_pos[of "- 1074"] by simp
  ultimately have "rhe (x / pow2 (- 1074)) = 0" by (intro rhe_small)
  then show ?thesis using e False by (simp add: rnd_def)
qed

lemma rnd_ge_min: "pow2 (- 1075) < x \<Longrightarrow> pow2 (- 1074) \<le> rnd x"
proof (cases "x < pow2 (- 1021)")
  case True
  assume a: "pow2 (- 1075) < x"
  then have pos: "0 < x" using pow2_pos[of "- 1075"] by linarith
  then have e: "b64_exp x = - 1074" using True by (intro b64_exp_tiny) auto
  have "1 / 2 < x / pow2 (- 1074)"
    using a pow2_half[of "- 1074"] pow2_pos[of "- 1074"] by (simp add: field_simps)
  then have "1 \<le> rhe (x / pow2 (- 1074))" by (rule rhe_ge_one)
  then have "1 \<le> (of_int (rhe (x / pow2 (- 1074))) :: real)" by simp
  then have "1 * pow2 (- 1074) \<le> of_int (rhe (x / pow2 (- 1074))) * pow2 (- 1074)"
    using pow2_pos[of "- 1074"] by (intro mult_right_mono) auto
  then show ?thesis using e pos by (simp add: rnd_def)
next
  case False
  then have x: "pow2 (- 1021) \<le> x" by simp
  have e: "\<bar>rnd x - x\<bar> \<le> max (pow2 (- 1075)) (\<bar>x\<bar> * pow2 (- 53))" by (rule rnd_err)
  have d: "pow2 (- 53) \<le> 1 / 2" using pow2_mono[of "- 53" "- 1"] by (simp add: pow2_m1)
  have q: "pow2 (- 1023) = pow2 (- 1021) / 4"
    using pow2_half[of "- 1021"] pow2_half[of "- 1022"] by simp
  have m: "pow2 (- 1075) \<le> pow2 (- 1021) / 4"
    using pow2_mono[of "- 1075" "- 1023"] q by simp
  have n: "pow2 (- 1074) \<le> pow2 (- 1021) / 4"
    using pow2_mono[of "- 1074" "- 1023"] q by simp
  have pos: "0 < x" using x pow2_pos[of "- 1021"] by linarith
  have "\<bar>x\<bar> * pow2 (- 53) \<le> x * (1 / 2)"
    using d pos by (simp add: mult_left_mono)
  then have "max (pow2 (- 1075)) (\<bar>x\<bar> * pow2 (- 53)) \<le> x / 2"
    using m x pos by (simp add: max_def)
  then have "x / 2 \<le> rnd x" using e by linarith
  then show ?thesis using n x pos by linarith
qed

lemma rnd_ge_half: "pow2 (- 1021) \<le> x \<Longrightarrow> x / 2 \<le> rnd x"
proof -
  assume x: "pow2 (- 1021) \<le> x"
  have e: "\<bar>rnd x - x\<bar> \<le> max (pow2 (- 1075)) (\<bar>x\<bar> * pow2 (- 53))" by (rule rnd_err)
  have d: "pow2 (- 53) \<le> 1 / 2" using pow2_mono[of "- 53" "- 1"] by (simp add: pow2_m1)
  have q: "pow2 (- 1023) = pow2 (- 1021) / 4"
    using pow2_half[of "- 1021"] pow2_half[of "- 1022"] by simp
  have m: "pow2 (- 1075) \<le> pow2 (- 1021) / 4"
    using pow2_mono[of "- 1075" "- 1023"] q by simp
  have pos: "0 < x" using x pow2_pos[of "- 1021"] by linarith
  have "\<bar>x\<bar> * pow2 (- 53) \<le> x * (1 / 2)"
    using d pos by (simp add: mult_left_mono)
  then have "max (pow2 (- 1075)) (\<bar>x\<bar> * pow2 (- 53)) \<le> x / 2"
    using m x pos by (simp add: max_def)
  then show "x / 2 \<le> rnd x" using e by linarith
qed

lemma rnd_lower: "0 \<le> x \<Longrightarrow> x / 2 - pow2 (- 1075) \<le> rnd x"
proof -
  assume x: "0 \<le> x"
  have e: "\<bar>rnd x - x\<bar> \<le> max (pow2 (- 1075)) (\<bar>x\<bar> * pow2 (- 53))" by (rule rnd_err)
  have d: "pow2 (- 53) \<le> 1 / 2" using pow2_mono[of "- 53" "- 1"] by (simp add: pow2_m1)
  have "x * pow2 (- 53) \<le> x * (1 / 2)"
    by (rule mult_left_mono[OF d x])
  then have "\<bar>x\<bar> * pow2 (- 53) \<le> x / 2" using x by simp
  then have "max (pow2 (- 1075)) (\<bar>x\<bar> * pow2 (- 53)) \<le> pow2 (- 1075) + x / 2"
    using x pow2_pos[of "- 1075"] by (simp add: max_def)
  then show ?thesis using e by linarith
qed

lemma rnd_0: "rnd 0 = 0"
  by (simp add: rnd_def)

lemma pow2_nat: "pow2 (int n) = 2 ^ n"
  by (simp add: pow2_def powr_realpow)

lemma pow2_neg_nat: "pow2 (- int n) = 1 / 2 ^ n"
  by (simp add: pow2_def powr_minus powr_realpow field_simps)

lemma rnd_min_double: "rnd (pow2 (- 1074)) = pow2 (- 1074)"
proof -
  have p: "0 < pow2 (- 1074)" by (rule pow2_pos)
  have "pow2 (- 1074) < pow2 (- 1021)" by (rule pow2_strict_mono) simp
  then have e: "b64_exp (pow2 (- 1074)) = - 1074" using p by (intro b64_exp_tiny) auto
  have "rhe (of_int 1) = 1" by (rule rhe_of_int)
  then show ?thesis using p e by (simp add: rnd_def)
qed

lemma rnd_tenth: "rnd (1 / 10) = 3602879701896397 / 36028797018963968"
proof -
  have a: "pow2 (- 4) = 1 / 16" using pow2_neg_nat[of 4] by simp
  have b: "pow2 (- 3) = 1 / 8" using pow2_neg_nat[of 3] by simp
  have "\<lfloor>log 2 \<bar>1 / 10 :: real\<bar>\<rfloor> = - 4"
    by (rule floor_log_eq) (simp_all add: a b)
  then have e: "b64_exp (1 / 10) = - 56" by (simp add: b64_exp_def)
  have c: "pow2 (- 56) = 1 / 72057594037927936" using pow2_neg_nat[of 56] by simp
  have r: "rhe ((1 / 10) / (1 / 72057594037927936)) = 7205759403792794"
    by (simp add: rhe_def Let_def)
  show ?thesis unfolding rnd_def e c r by simp
qed

lemma rnd_ge_5min: "5 * pow2 (- 1074) \<le> x \<Longrightarrow> 5 * pow2 (- 1074) \<le> rnd x"
proof (cases "x < pow2 (- 1021)")
  case True
  assume a: "5 * pow2 (- 1074) \<le> x"
  have p: "0 < pow2 (- 1074)" by (rule pow2_pos)
  then have pos: "0 < x" using a by linarith
  then have e: "b64_exp x = - 1074" using True by (intro b64_exp_tiny) auto
  have "5 \<le> x / pow2 (- 1074)" using a p by (simp add: field_simps)
  then have "5 \<le> \<lfloor>x / pow2 (- 1074)\<rfloor>" by (simp add: le_floor_iff)
  then have "5 \<le> rhe (x / pow2 (- 1074))" using rhe_ge_floor[of "x / pow2 (- 1074)"] by linarith
  then have "5 \<le> (of_int (rhe (x / pow2 (- 1074))) :: real)" by simp
  then have "5 * pow2 (- 1074) \<le> of_int (rhe (x / pow2 (- 1074))) * pow2 (- 1074)"
    using p by (intro mult_right_mono) auto
  then show ?thesis using e pos by (simp add: rnd_def)
next
  case False
  then have x: "pow2 (- 1021) \<le> x" by simp
  have q: "pow2 (- 1024) = pow2 (- 1021) / 8"
    using pow2_half[of "- 1021"] pow2_half[of "- 1022"] pow2_half[of "- 1023"] by simp
  have "pow2 (- 1071) = 8 * pow2 (- 1074)"
    using pow2_half[of "- 1071"] pow2_half[of "- 1072"] pow2_half[of "- 1073"] by simp
  moreover have "pow2 (- 1071) \<le> pow2 (- 1024)" by (rule pow2_mono) simp
  ultimately have "5 * pow2 (- 1074) \<le> pow2 (- 1021) / 2"
    using q pow2_pos[of "- 1074"] pow2_pos[of "- 1021"] by linarith
  then show ?thesis using rnd_ge_half[OF x] x by linarith
qed

lemma div_pow2_le: "0 \<le> t \<Longrightarrow> t / 2 ^ k \<le> (t::real)"
proof -
  assume t: "0 \<le> t"
  have "(1::real) \<le> 2 ^ k" by simp
  then have "t / 2 ^ k \<le> t / 1" using t by (intro divide_left_mono) auto
  then show ?thesis by simp
qed

lemma rnd_eval:
  assumes "pow2 k \<le> x" and "x < pow2 (k + 1)" and "- 1022 \<le> k"
  shows "rnd x = of_int (rhe (x / pow2 (k - 52))) * pow2 (k - 52)"
proof -
  have pos: "0 < x" using assms(1) pow2_pos[of k] by linarith
  then have "\<lfloor>log 2 \<bar>x\<bar>\<rfloor> = k" using assms(1,2) by (intro floor_log_eq)
  then have "b64_exp x = k - 52" using assms(3) by (simp add: b64_exp_def)
  then show ?thesis using pos by (simp add: rnd_def)
qed

lemma rnd_nat:
  assumes "n < 2 ^ 53"
  shows "rnd (real n) = real n"
proof (cases "n = 0")
  case True
  then show ?thesis by (simp add: rnd_0)
next
  case False
  let ?k = "\<lfloor>log 2 \<bar>real n\<bar>\<rfloor>"
  have n0: "real n \<noteq> 0" using False by simp
  have lo: "pow2 ?k \<le> real n" using pow_floor_log_le[OF n0] by simp
  have hi: "real n < pow2 (?k + 1)" using lt_pow_floor_log[OF n0] by simp
  have "1 \<le> real n" using False by simp
  then have "pow2 0 < pow2 (?k + 1)" using hi by (simp add: pow2_0)
  then have k0: "0 \<le> ?k" using pow2_mono[of "?k + 1" 0] by linarith
  have "real n < pow2 53" using assms pow2_nat[of 53] by simp
  then have "pow2 ?k < pow2 53" using lo by linarith
  then have k53: "?k \<le> 52" using pow2_mono[of 53 ?k] by linarith
  have e: "b64_exp (real n) = ?k - 52" using k0 by (simp add: b64_exp_def)
  obtain j where j: "52 - ?k = int j" using k53 by (metis diff_ge_0_iff_ge nonneg_int_cases)
  have "pow2 (?k - 52) * pow2 (52 - ?k) = 1"
    using pow2_add[of "?k - 52" "52 - ?k"] by (simp add: pow2_0)
  then have inv: "pow2 (?k - 52) * 2 ^ j = 1" using pow2_nat[of j] j by simp
  then have "real n / pow2 (?k - 52) = real n * 2 ^ j"
    using pow2_pos[of "?k - 52"] by (simp add: field_simps)
  also have "\<dots> = of_int (int (n * 2 ^ j))" by simp
  finally have "rhe (real n / pow2 (?k - 52)) = int (n * 2 ^ j)" by (simp only: rhe_of_int)
  then have "rnd (real n) = real n * 2 ^ j * pow2 (?k - 52)"
    using n0 e by (simp add: rnd_def)
  then show ?thesis using inv by (simp add: field_simps)
qed

lemma pow2_consts:
  "pow2 (- 1074) = 2 * pow2 (- 1075)"
  "pow2 (- 1021) = 9007199254740992 * pow2 (- 1074)"
  "pow2 (- 1024) = 1125899906842624 * pow2 (- 1074)"
  "pow2 (- 53) * pow2 (- 1021) = pow2 (- 1074)"
  "pow2 (- 1024) * pow2 1024 = 1"
  "pow2 (- 14) = 1 / 16384"
proof -
  show "pow2 (- 1074) = 2 * pow2 (- 1075)" using pow2_half[of "- 1074"] by simp
  show "pow2 (- 1021) = 9007199254740992 * pow2 (- 1074)"
    using pow2_add[of 53 "- 1074"] pow2_nat[of 53] by simp
  show "pow2 (- 1024) = 1125899906842624 * pow2 (- 1074)"
    using pow2_add[of 50 "- 1074"] pow2_nat[of 50] by simp
  show "pow2 (- 53) * pow2 (- 1021) = pow2 (- 1074)"
    using pow2_add[of "- 53" "- 1021"] by simp
  show "pow2 (- 1024) * pow2 1024 = 1"
    using pow2_add[of "- 1024" 1024] by (simp add: pow2_0)
  show "pow2 (- 14) = 1 / 16384" using pow2_neg_nat[of 14] by simp
qed

lemma rnd_upper: "0 \<le> x \<Longrightarrow> rnd x \<le> x * (1 + pow2 (- 53)) + pow2 (- 1075)"
proof -
  assume x: "0 \<le> x"
  have "\<bar>rnd x - x\<bar> \<le> max (pow2 (- 1075)) (\<bar>x\<bar> * pow2 (- 53))" by (rule rnd_err)
  moreover have "max (pow2 (- 1075)) (\<bar>x\<bar> * pow2 (- 53)) \<le> pow2 (- 1075) + x * pow2 (- 53)"
    using x pow2_pos[of "- 1075"] pow2_pos[of "- 53"] by (simp add: max_def)
  ultimately show ?thesis by (simp add: algebra_simps) linarith
qed

lemma rnd_lower_rel: "0 \<le> x \<Longrightarrow> x * (1 - pow2 (- 53)) - pow2 (- 1075) \<le> rnd x"
proof -
  assume x: "0 \<le> x"
  have "\<bar>rnd x - x\<bar> \<le> max (pow2 (- 1075)) (\<bar>x\<bar> * pow2 (- 53))" by (rule rnd_err)
  moreover have "max (pow2 (- 1075)) (\<bar>x\<bar> * pow2 (- 53)) \<le> pow2 (- 1075) + x * pow2 (- 53)"
    using x pow2_pos[of "- 1075"] pow2_pos[of "- 53"] by (simp add: max_def)
  ultimately show ?thesis by (simp add: algebra_simps) linarith
qed

lemma le_mult_ge_one: "0 \<le> a \<Longrightarrow> 1 \<le> d \<Longrightarrow> a \<le> a * (d::real)"
  using mult_left_mono[of 1 d a] by simp

lemma mult_le_one_le: "0 \<le> a \<Longrightarrow> d \<le> 1 \<Longrightarrow> a * d \<le> (a::real)"
  using mult_left_mono[of d 1 a] by simp


section \<open>Properties of the tax estimate in binary64 arithmetic\<close>

lemma tax_loop_b64_break:
  "contiguous lo bs \<Longrightarrow> inc \<le> lo \<Longrightarrow> tax_loop_b64 F inc bs tot bd = (tot, bd)"
  by (induction lo bs rule: contiguous.induct) auto

lemma bracket_tax_nonneg:
  assumes "l < inc" and "case u of None \<Rightarrow> True | Some x \<Rightarrow> l < x" and "0 < r"
  shows "0 \<le> rnd (rnd (min_upper inc u - l) * rnd r)"
proof -
  have "0 \<le> min_upper inc u - l"
    using assms(1,2) by (cases u) (auto simp: min_upper_def)
  then have "0 \<le> rnd (min_upper inc u - l)" by (rule rnd_nonneg)
  moreover have "0 \<le> rnd r" using assms(3) by (intro rnd_nonneg) simp
  ultimately have "0 \<le> rnd (min_upper inc u - l) * rnd r" by (rule mult_nonneg_nonneg)
  then show ?thesis by (rule rnd_nonneg)
qed

lemma tax_loop_b64_invariant:
  assumes step: "\<And>t x. P t \<Longrightarrow> 0 \<le> x \<Longrightarrow> P (rnd (t + x))"
  shows "contiguous lo bs \<Longrightarrow> P tot \<Longrightarrow> P (fst (tax_loop_b64 F inc bs tot bd))"
proof (induction lo bs arbitrary: tot bd rule: contiguous.induct)
  case (1 lo)
  then show ?case by simp
next
  case (2 lo l u r)
  show ?case
  proof (cases "inc \<le> l")
    case True
    then show ?thesis using "2.prems" by simp
  next
    case False
    then have "0 \<le> rnd (rnd (min_upper inc u - l) * rnd r)"
      using "2.prems"(1) by (intro bracket_tax_nonneg) auto
    then have "P (rnd (tot + rnd (rnd (min_upper inc u - l) * rnd r)))"
      using "2.prems"(2) by (intro step)
    then show ?thesis using False by (simp add: Let_def)
  qed
next
  case (3 lo l u r b bs)
  then obtain x where u: "u = Some x" and lx: "lo < x" and c: "contiguous x (b # bs)"
    and l: "l = lo" and r: "0 < r"
    by (auto split: option.splits)
  show ?case
  proof (cases "inc \<le> l")
    case True
    then show ?thesis using "3.prems" by simp
  next
    case False
    then have "0 \<le> rnd (rnd (min_upper inc u - l) * rnd r)"
      using u lx l r by (intro bracket_tax_nonneg) auto
    then have p: "P (rnd (tot + rnd (rnd (min_upper inc u - l) * rnd r)))"
      using "3.prems"(2) by (intro step)
    show ?thesis using False "3.IH"[OF u c p] by (simp add: Let_def)
  qed
qed

lemma tax_loop_b64_nonneg:
  "contiguous lo bs \<Longrightarrow> 0 \<le> tot \<Longrightarrow> 0 \<le> fst (tax_loop_b64 F inc bs tot bd)"
  by (rule tax_loop_b64_invariant[where P = "\<lambda>t. 0 \<le> t"]) (auto intro: rnd_nonneg)

lemma tax_loop_b64_ge_min:
  "contiguous lo bs \<Longrightarrow> pow2 (- 1074) \<le> tot \<Longrightarrow>
   pow2 (- 1074) \<le> fst (tax_loop_b64 F inc bs tot bd)"
proof (rule tax_loop_b64_invariant[where P = "\<lambda>t. pow2 (- 1074) \<le> t"])
  fix t x :: real
  assume "pow2 (- 1074) \<le> t" and "0 \<le> x"
  moreover have "pow2 (- 1075) < pow2 (- 1074)" by (rule pow2_strict_mono) simp
  ultimately have "pow2 (- 1075) < t + x" by linarith
  then show "pow2 (- 1074) \<le> rnd (t + x)" by (rule rnd_ge_min)
qed

lemma tax_loop_b64_decay:
  "contiguous lo bs \<Longrightarrow> 0 \<le> tot \<Longrightarrow>
   tot / 2 ^ length bs - real (length bs) * pow2 (- 1075) \<le> fst (tax_loop_b64 F inc bs tot bd)"
proof (induction lo bs arbitrary: tot bd rule: contiguous.induct)
  case (1 lo)
  then show ?case by simp
next
  case (2 lo l u r)
  have m: "0 < pow2 (- 1075)" by (rule pow2_pos)
  show ?case
  proof (cases "inc \<le> l")
    case True
    then show ?thesis using "2.prems"(2) m by simp
  next
    case False
    then have t: "0 \<le> rnd (rnd (min_upper inc u - l) * rnd r)"
      using "2.prems"(1) by (intro bracket_tax_nonneg) auto
    let ?z = "tot + rnd (rnd (min_upper inc u - l) * rnd r)"
    have "?z / 2 - pow2 (- 1075) \<le> rnd ?z" using t "2.prems"(2) by (intro rnd_lower) simp
    moreover have "tot / 2 \<le> ?z / 2" using t by simp
    ultimately have "tot / 2 - pow2 (- 1075) \<le> rnd ?z" by linarith
    then show ?thesis using False by (simp add: Let_def)
  qed
next
  case (3 lo l u r b bs)
  then obtain x where u: "u = Some x" and lx: "lo < x" and c: "contiguous x (b # bs)"
    and l: "l = lo" and r: "0 < r"
    by (auto split: option.splits)
  have m: "0 < pow2 (- 1075)" by (rule pow2_pos)
  let ?n = "length (b # bs)"
  show ?case
  proof (cases "inc \<le> l")
    case True
    have "tot / 2 ^ Suc ?n \<le> tot"
      using "3.prems"(2) by (rule div_pow2_le)
    moreover have "0 \<le> real (Suc ?n) * pow2 (- 1075)" using m by simp
    ultimately show ?thesis using True by simp
  next
    case False
    then have t: "0 \<le> rnd (rnd (min_upper inc u - l) * rnd r)"
      using u lx l r by (intro bracket_tax_nonneg) auto
    let ?z = "tot + rnd (rnd (min_upper inc u - l) * rnd r)"
    have z: "0 \<le> ?z" using t "3.prems"(2) by simp
    have "?z / 2 - pow2 (- 1075) \<le> rnd ?z" using z by (rule rnd_lower)
    moreover have "tot / 2 \<le> ?z / 2" using t by simp
    ultimately have s: "tot / 2 - pow2 (- 1075) \<le> rnd ?z" by linarith
    have nn: "0 \<le> rnd ?z" using z by (rule rnd_nonneg)
    have ih: "rnd ?z / 2 ^ ?n - real ?n * pow2 (- 1075)
                \<le> fst (tax_loop_b64 F inc (b # bs) (rnd ?z)
                      (if 0 < rnd (min_upper inc u - l)
                       then bd @ [mk_entry_b64 F inc (l, u, r)] else bd))"
      by (rule "3.IH"[OF u c nn])
    have "(tot / 2 - pow2 (- 1075)) / 2 ^ ?n \<le> rnd ?z / 2 ^ ?n"
      using s by (simp add: divide_right_mono)
    moreover have "pow2 (- 1075) / 2 ^ ?n \<le> pow2 (- 1075)"
      using m by (intro div_pow2_le) simp
    moreover have "(tot / 2 - pow2 (- 1075)) / 2 ^ ?n
                     = tot / 2 ^ Suc ?n - pow2 (- 1075) / 2 ^ ?n"
      by (simp add: diff_divide_distrib)
    moreover have "real (Suc ?n) * pow2 (- 1075) = real ?n * pow2 (- 1075) + pow2 (- 1075)"
      by (simp add: algebra_simps)
    ultimately have "tot / 2 ^ Suc ?n - real (Suc ?n) * pow2 (- 1075)
                \<le> rnd ?z / 2 ^ ?n - real ?n * pow2 (- 1075)"
      by linarith
    then show ?thesis using False ih by (simp add: Let_def)
  qed
qed

lemma calc_b64_unfold:
  "calculate_tax_estimate_b64 F inc fs =
     \<lparr>total_tax = fst (tax_loop_b64 F inc single_brackets 0 []),
      effective_rate =
        (if inc > 0
         then rnd (rnd (fst (tax_loop_b64 F inc single_brackets 0 []) / inc) * 100) else 0),
      after_tax_income = rnd (inc - fst (tax_loop_b64 F inc single_brackets 0 [])),
      breakdown = snd (tax_loop_b64 F inc single_brackets 0 [])\<rparr>"
  by (simp add: calculate_tax_estimate_b64_def brackets_lookup split_beta Let_def)

lemma single_brackets_split:
  obtains rest where "single_brackets = (0, Some 11000, 1 / 10) # rest"
    and "contiguous 11000 rest" and "length rest = 6"
  by (simp add: single_brackets_def)

lemma first_bracket_b64:
  assumes "0 < inc" and "single_brackets = (0, Some 11000, 1 / 10) # rest"
  shows "\<exists>bd. tax_loop_b64 F inc single_brackets 0 [] =
           tax_loop_b64 F inc rest (rnd (rnd (rnd (min inc 11000) * rnd (1 / 10)))) bd"
  unfolding assms(2) using assms(1) by (auto simp: min_upper_def Let_def)

lemma total_ge_min_b64:
  assumes "5 * pow2 (- 1074) \<le> inc"
  shows "pow2 (- 1074) \<le> fst (tax_loop_b64 F inc single_brackets 0 [])"
proof -
  obtain rest where s: "single_brackets = (0, Some 11000, 1 / 10) # rest"
    and c: "contiguous 11000 rest" and "length rest = 6"
    by (rule single_brackets_split)
  have M: "0 < pow2 (- 1074)" by (rule pow2_pos)
  have pos: "0 < inc" using assms M by linarith
  obtain bd where l: "tax_loop_b64 F inc single_brackets 0 [] =
      tax_loop_b64 F inc rest (rnd (rnd (rnd (min inc 11000) * rnd (1 / 10)))) bd"
    using first_bracket_b64[OF pos s] by blast
  have "pow2 (- 1074) \<le> pow2 0" by (rule pow2_mono) simp
  then have "5 * pow2 (- 1074) \<le> 11000" by (simp add: pow2_0)
  then have "5 * pow2 (- 1074) \<le> min inc 11000" using assms by simp
  then have t: "5 * pow2 (- 1074) \<le> rnd (min inc 11000)" by (rule rnd_ge_5min)
  have "5 * pow2 (- 1074) * (1 / 10) < rnd (min inc 11000) * rnd (1 / 10)"
  proof -
    have "5 * pow2 (- 1074) * (1 / 10) < 5 * pow2 (- 1074) * rnd (1 / 10)"
      using M by (simp add: rnd_tenth)
    also have "\<dots> \<le> rnd (min inc 11000) * rnd (1 / 10)"
      using t by (intro mult_right_mono) (simp_all add: rnd_tenth)
    finally show ?thesis .
  qed
  then have "pow2 (- 1075) < rnd (min inc 11000) * rnd (1 / 10)"
    by (simp add: pow2_consts(1))
  then have "pow2 (- 1074) \<le> rnd (rnd (min inc 11000) * rnd (1 / 10))" by (rule rnd_ge_min)
  then have "pow2 (- 1075) < rnd (rnd (min inc 11000) * rnd (1 / 10))"
    using M by (simp add: pow2_consts(1))
  then have "pow2 (- 1074) \<le> rnd (rnd (rnd (min inc 11000) * rnd (1 / 10)))"
    by (rule rnd_ge_min)
  then show ?thesis unfolding l by (rule tax_loop_b64_ge_min[OF c])
qed

lemma total_ge_fraction_b64:
  assumes "pow2 (- 1021) \<le> inc"
  shows "min inc 11000 / 10240 \<le> fst (tax_loop_b64 F inc single_brackets 0 [])"
proof -
  obtain rest where s: "single_brackets = (0, Some 11000, 1 / 10) # rest"
    and c: "contiguous 11000 rest" and n: "length rest = 6"
    by (rule single_brackets_split)
  have M: "0 < pow2 (- 1075)" by (rule pow2_pos)
  have P: "pow2 (- 1021) = 18014398509481984 * pow2 (- 1075)"
    by (simp add: pow2_consts(1,2))
  have pos: "0 < inc" using assms P M by linarith
  obtain bd where l: "tax_loop_b64 F inc single_brackets 0 [] =
      tax_loop_b64 F inc rest (rnd (rnd (rnd (min inc 11000) * rnd (1 / 10)))) bd"
    using first_bracket_b64[OF pos s] by blast
  let ?m = "min inc 11000"
  have "pow2 (- 1021) \<le> pow2 0" by (rule pow2_mono) simp
  then have m: "pow2 (- 1021) \<le> ?m" using assms by (simp add: pow2_0)
  have t1: "?m / 2 \<le> rnd ?m" by (rule rnd_ge_half[OF m])
  have mpos: "0 < ?m" using m P M by linarith
  have "?m / 2 * (1 / 10) \<le> rnd ?m * rnd (1 / 10)"
  proof -
    have "?m / 2 * (1 / 10) \<le> rnd ?m * (1 / 10)" using t1 by simp
    also have "\<dots> \<le> rnd ?m * rnd (1 / 10)"
      using t1 mpos by (intro mult_left_mono) (simp_all add: rnd_tenth)
    finally show ?thesis .
  qed
  then have y: "?m / 20 \<le> rnd ?m * rnd (1 / 10)" by simp
  have ynn: "0 \<le> rnd ?m * rnd (1 / 10)" using y mpos by linarith
  have t2: "?m / 40 - pow2 (- 1075) \<le> rnd (rnd ?m * rnd (1 / 10))"
    using rnd_lower[OF ynn] y by linarith
  have t2nn: "0 \<le> rnd (rnd ?m * rnd (1 / 10))" using ynn by (rule rnd_nonneg)
  have t3: "?m / 80 - 2 * pow2 (- 1075) \<le> rnd (rnd (rnd ?m * rnd (1 / 10)))"
    using rnd_lower[OF t2nn] t2 M by linarith
  have t3nn: "0 \<le> rnd (rnd (rnd ?m * rnd (1 / 10)))" using t2nn by (rule rnd_nonneg)
  have "rnd (rnd (rnd ?m * rnd (1 / 10))) / 2 ^ length rest - real (length rest) * pow2 (- 1075)
          \<le> fst (tax_loop_b64 F inc rest (rnd (rnd (rnd ?m * rnd (1 / 10)))) bd)"
    by (rule tax_loop_b64_decay[OF c t3nn])
  then have "rnd (rnd (rnd ?m * rnd (1 / 10))) / 64 - 6 * pow2 (- 1075)
          \<le> fst (tax_loop_b64 F inc single_brackets 0 [])"
    unfolding l n by simp
  then have "?m / 5120 - 7 * pow2 (- 1075) \<le> fst (tax_loop_b64 F inc single_brackets 0 [])"
    using t3 M by linarith
  moreover have "7 * pow2 (- 1075) \<le> ?m / 10240" using m P M by linarith
  ultimately show ?thesis by linarith
qed

lemma effective_rate_pos_b64:
  assumes "5 * pow2 (- 1074) \<le> inc" and "inc < pow2 1024"
  shows "0 < rnd (rnd (fst (tax_loop_b64 F inc single_brackets 0 []) / inc) * 100)"
proof -
  let ?t = "fst (tax_loop_b64 F inc single_brackets 0 [])"
  have M: "0 < pow2 (- 1074)" and m: "0 < pow2 (- 1075)" by (rule pow2_pos)+
  have pos: "0 < inc" using assms(1) M by linarith
  have ratio: "pow2 (- 1075) < ?t / inc"
  proof (cases "inc < pow2 (- 1021)")
    case True
    have t: "pow2 (- 1074) \<le> ?t" by (rule total_ge_min_b64[OF assms(1)])
    have "pow2 (- 53) * inc < pow2 (- 53) * pow2 (- 1021)"
      using True pow2_pos[of "- 53"] by simp
    then have "pow2 (- 53) * inc < ?t" using t by (simp add: pow2_consts(4))
    then have "pow2 (- 53) < ?t / inc" using pos by (simp add: field_simps)
    moreover have "pow2 (- 1075) \<le> pow2 (- 53)" by (rule pow2_mono) simp
    ultimately show ?thesis by linarith
  next
    case False
    then have P: "pow2 (- 1021) \<le> inc" by simp
    have t: "min inc 11000 / 10240 \<le> ?t" by (rule total_ge_fraction_b64[OF P])
    show ?thesis
    proof (cases "inc \<le> 11000")
      case True
      then have "inc / 10240 \<le> ?t" using t by simp
      then have "1 / 10240 \<le> ?t / inc" using pos by (simp add: field_simps)
      moreover have "pow2 (- 1075) \<le> pow2 (- 14)" by (rule pow2_mono) simp
      ultimately show ?thesis by (simp add: pow2_consts(6))
    next
      case False
      then have "1 \<le> ?t" using t by simp
      then have "1 / inc \<le> ?t / inc" using pos by (simp add: divide_right_mono)
      moreover have "pow2 (- 1024) < 1 / inc"
      proof -
        have "pow2 (- 1024) * inc < pow2 (- 1024) * pow2 1024"
          using assms(2) pow2_pos[of "- 1024"] by (intro mult_strict_left_mono)
        then have "pow2 (- 1024) * inc < 1" unfolding pow2_consts(5) .
        then show ?thesis using pos by (simp add: pos_less_divide_eq)
      qed
      moreover have "pow2 (- 1075) \<le> pow2 (- 1024)" by (rule pow2_mono) simp
      ultimately show ?thesis by linarith
    qed
  qed
  then have q: "pow2 (- 1074) \<le> rnd (?t / inc)" by (rule rnd_ge_min)
  then have "pow2 (- 1075) < rnd (?t / inc) * 100" using m by (simp add: pow2_consts(1))
  then have "pow2 (- 1074) \<le> rnd (rnd (?t / inc) * 100)" by (rule rnd_ge_min)
  then show ?thesis using M by linarith
qed

lemma rnd_multiple_of_min:
  assumes "rnd x = x" and "0 \<le> x" and "x < 5 * pow2 (- 1074)"
  shows "x \<le> 4 * pow2 (- 1074)"
proof (cases "x = 0")
  case True
  then show ?thesis using pow2_pos[of "- 1074"] by simp
next
  case False
  have M: "0 < pow2 (- 1074)" by (rule pow2_pos)
  have "5 * pow2 (- 1074) \<le> pow2 (- 1021)" using M by (simp add: pow2_consts(2))
  then have e: "b64_exp x = - 1074" using False assms(2,3) by (intro b64_exp_tiny) auto
  let ?n = "rhe (x / pow2 (- 1074))"
  have x: "x = of_int ?n * pow2 (- 1074)" using assms(1) False e by (simp add: rnd_def)
  then have "of_int ?n * pow2 (- 1074) < 5 * pow2 (- 1074)" using assms(3) by simp
  then have "(of_int ?n :: real) < 5" using M by simp
  then have "?n \<le> 4" by linarith
  then have "(of_int ?n :: real) \<le> 4" by linarith
  then have "of_int ?n * pow2 (- 1074) \<le> 4 * pow2 (- 1074)"
    using M by (intro mult_right_mono) auto
  then show ?thesis using x by simp
qed

lemma total_underflow_b64:
  assumes "0 < inc" and "inc \<le> 4 * pow2 (- 1074)" and "rnd inc = inc"
  shows "fst (tax_loop_b64 F inc single_brackets 0 []) = 0"
proof -
  obtain rest where s: "single_brackets = (0, Some 11000, 1 / 10) # rest"
    and c: "contiguous 11000 rest" and "length rest = 6"
    by (rule single_brackets_split)
  have M: "0 < pow2 (- 1074)" by (rule pow2_pos)
  obtain bd where l: "tax_loop_b64 F inc single_brackets 0 [] =
      tax_loop_b64 F inc rest (rnd (rnd (rnd (min inc 11000) * rnd (1 / 10)))) bd"
    using first_bracket_b64[OF assms(1) s] by blast
  have "pow2 (- 1074) \<le> pow2 0" by (rule pow2_mono) simp
  then have small: "inc \<le> 11000" using assms(2) by (simp add: pow2_0)
  then have m: "rnd (min inc 11000) = inc" using assms(3) by simp
  have "inc * rnd (1 / 10) \<le> 4 * pow2 (- 1074) * rnd (1 / 10)"
    using assms(2) by (intro mult_right_mono) (simp_all add: rnd_tenth)
  also have "\<dots> < pow2 (- 1075)" using M by (simp add: rnd_tenth pow2_consts(1))
  finally have "inc * rnd (1 / 10) < pow2 (- 1075)" .
  moreover have "0 \<le> inc * rnd (1 / 10)" using assms(1) by (simp add: rnd_tenth)
  ultimately have "rnd (inc * rnd (1 / 10)) = 0" by (intro rnd_underflow)
  then have "rnd (rnd (rnd (min inc 11000) * rnd (1 / 10))) = 0" by (simp add: m rnd_0)
  then show ?thesis unfolding l using tax_loop_b64_break[OF c small] by simp
qed

text \<open>
  Claim C3, as stated: after-tax income and total tax add up to the income within
  floating-point tolerance, the effective rate is 0 exactly when the income is 0, and it is
  strictly positive for every positive income. In binary64 arithmetic the tax of the first
  bracket, \<^verbatim>\<open>taxable_in_bracket * rate\<close>, underflows to 0.0 for the smallest positive
  double \<open>2^-1074\<close> (\<^verbatim>\<open>5e-324\<close>): the total tax and the effective rate of this positive income
  are 0.
\<close>

theorem tax_underflow_b64:
  "0 < pow2 (- 1074)
   \<and> rnd (pow2 (- 1074)) = pow2 (- 1074)
   \<and> pow2 (- 1074) < pow2 1024
   \<and> effective_rate (calculate_tax_estimate_b64 plain_formatter (pow2 (- 1074)) ''single'') = 0"
proof -
  have M: "0 < pow2 (- 1074)" by (rule pow2_pos)
  have u: "pow2 (- 1074) < pow2 1024" by (rule pow2_strict_mono) simp
  have "fst (tax_loop_b64 plain_formatter (pow2 (- 1074)) single_brackets 0 []) = 0"
    using M by (intro total_underflow_b64 rnd_min_double) simp_all
  then show ?thesis using M u by (simp add: calc_b64_unfold rnd_0 rnd_min_double)
qed

text \<open>
  Claim C3, amended: for every income that is a non-negative double (below \<open>2^1024\<close>),
  after-tax income plus total tax differs from the income by at most the rounding error of
  the one subtraction \<^verbatim>\<open>income - total_tax\<close>, that is by at most \<open>2^-53\<close> times the larger
  of income and total tax, or \<open>2^-1075\<close>; the effective rate is 0 exactly when the income is
  below \<open>5 * 2^-1074\<close> (\<^verbatim>\<open>2.5e-323\<close>), that is for the income 0 and for the four smallest
  positive doubles; and it is strictly positive for every income from \<open>5 * 2^-1074\<close> on.
\<close>

theorem tax_estimate_b64:
  assumes "0 \<le> inc" and "rnd inc = inc" and "inc < pow2 1024"
  shows "\<bar>after_tax_income (calculate_tax_estimate_b64 F inc fs)
           + total_tax (calculate_tax_estimate_b64 F inc fs) - inc\<bar>
           \<le> max (pow2 (- 1075))
                 (max inc (total_tax (calculate_tax_estimate_b64 F inc fs)) * pow2 (- 53))
       \<and> (effective_rate (calculate_tax_estimate_b64 F inc fs) = 0
            \<longleftrightarrow> inc < 5 * pow2 (- 1074))
       \<and> (5 * pow2 (- 1074) \<le> inc \<longrightarrow>
            0 < effective_rate (calculate_tax_estimate_b64 F inc fs))"
proof -
  let ?t = "fst (tax_loop_b64 F inc single_brackets 0 [])"
  let ?e = "if 0 < inc then rnd (rnd (?t / inc) * 100) else 0"
  have tn: "0 \<le> ?t"
    by (rule tax_loop_b64_nonneg[OF contiguous_single]) simp
  have a: "\<bar>rnd (inc - ?t) + ?t - inc\<bar> \<le> max (pow2 (- 1075)) (max inc ?t * pow2 (- 53))"
  proof -
    have "\<bar>inc - ?t\<bar> \<le> max inc ?t" using assms(1) tn by (simp add: max_def abs_if)
    then have m: "\<bar>inc - ?t\<bar> * pow2 (- 53) \<le> max inc ?t * pow2 (- 53)"
      using pow2_pos[of "- 53"] by (intro mult_right_mono) auto
    have "rnd (inc - ?t) + ?t - inc = rnd (inc - ?t) - (inc - ?t)" by simp
    then have "\<bar>rnd (inc - ?t) + ?t - inc\<bar> = \<bar>rnd (inc - ?t) - (inc - ?t)\<bar>" by simp
    also have "\<dots> \<le> max (pow2 (- 1075)) (\<bar>inc - ?t\<bar> * pow2 (- 53))"
      by (rule rnd_err)
    also have "\<dots> \<le> max (pow2 (- 1075)) (max inc ?t * pow2 (- 53))"
      using m by (intro max.mono) auto
    finally show ?thesis .
  qed
  have b: "?e = 0" if s: "inc < 5 * pow2 (- 1074)"
  proof (cases "0 < inc")
    case True
    have "inc \<le> 4 * pow2 (- 1074)" by (rule rnd_multiple_of_min[OF assms(2) assms(1) s])
    then have "?t = 0" using True assms(2) by (intro total_underflow_b64)
    then show ?thesis by (simp add: rnd_0)
  next
    case False
    then show ?thesis by simp
  qed
  have c: "0 < ?e" if l: "5 * pow2 (- 1074) \<le> inc"
  proof -
    have "0 < inc" using l pow2_pos[of "- 1074"] by linarith
    then show ?thesis using effective_rate_pos_b64[OF l assms(3)] by simp
  qed
  have d: "?e = 0 \<longleftrightarrow> inc < 5 * pow2 (- 1074)"
  proof
    assume z: "?e = 0"
    show "inc < 5 * pow2 (- 1074)"
    proof (rule ccontr)
      assume "\<not> inc < 5 * pow2 (- 1074)"
      then have "0 < ?e" by (intro c) simp
      then show False using z by simp
    qed
  next
    assume "inc < 5 * pow2 (- 1074)"
    then show "?e = 0" by (rule b)
  qed
  have c': "5 * pow2 (- 1074) \<le> inc \<longrightarrow> 0 < ?e" using c by blast
  show ?thesis using a d c' by (simp add: calc_b64_unfold)
qed

theorem tax_estimate_b64_witness:
  "0 \<le> (15000::real) \<and> rnd 15000 = 15000 \<and> 15000 < pow2 1024
   \<and> 5 * pow2 (- 1074) \<le> 15000
   \<and> 0 < effective_rate (calculate_tax_estimate_b64 plain_formatter 15000 ''single'')
   \<and> \<bar>after_tax_income (calculate_tax_estimate_b64 plain_formatter 15000 ''single'')
        + total_tax (calculate_tax_estimate_b64 plain_formatter 15000 ''single'') - 15000\<bar>
        \<le> max (pow2 (- 1075))
             (max 15000 (total_tax (calculate_tax_estimate_b64 plain_formatter 15000 ''single''))
                * pow2 (- 53))"
proof -
  have "pow2 (- 1074) \<le> pow2 0" by (rule pow2_mono) simp
  then have l: "5 * pow2 (- 1074) \<le> 15000" by (simp add: pow2_0)
  have "pow2 14 \<le> pow2 1024" by (rule pow2_mono) simp
  then have u: "15000 < pow2 1024" using pow2_nat[of 14] by simp
  have r: "rnd 15000 = 15000" using rnd_nat[of 15000] by simp
  show ?thesis
    using l u r tax_estimate_b64 [of 15000 plain_formatter "''single''"]
    by simp
qed


section \<open>Properties of the budget analysis in binary64 arithmetic\<close>

lemma fold_rnd_nonneg:
  "\<forall>x \<in> set xs. 0 \<le> x \<Longrightarrow> 0 \<le> s \<Longrightarrow> 0 \<le> foldl (\<lambda>s x. rnd (s + x)) s xs"
  by (induction xs arbitrary: s) (simp_all add: rnd_nonneg)

lemma fold_rnd_upper:
  "\<forall>x \<in> set xs. 0 \<le> x \<Longrightarrow> 0 \<le> s \<Longrightarrow>
   foldl (\<lambda>s x. rnd (s + x)) s xs
     \<le> (s + sum_list xs + real (length xs) * pow2 (- 1075)) * (1 + pow2 (- 53)) ^ length xs"
proof (induction xs arbitrary: s)
  case Nil
  then show ?case by simp
next
  case (Cons x xs)
  let ?d = "1 + pow2 (- 53)" and ?m = "pow2 (- 1075)" and ?n = "length xs"
  have d: "1 \<le> ?d" using pow2_pos[of "- 53"] by simp
  have m: "0 < ?m" by (rule pow2_pos)
  have x: "0 \<le> x" and xs: "\<forall>y \<in> set xs. 0 \<le> y" using Cons.prems(1) by auto
  have sx: "0 \<le> s + x" using x Cons.prems(2) by simp
  have r: "rnd (s + x) \<le> (s + x) * ?d + ?m" by (rule rnd_upper[OF sx])
  have rn: "0 \<le> rnd (s + x)" by (rule rnd_nonneg[OF sx])
  have S: "0 \<le> sum_list xs" using xs by (simp add: sum_list_nonneg)
  have "foldl (\<lambda>s x. rnd (s + x)) (rnd (s + x)) xs
          \<le> (rnd (s + x) + sum_list xs + real ?n * ?m) * ?d ^ ?n"
    by (rule Cons.IH[OF xs rn])
  also have "\<dots> \<le> ((s + x + sum_list xs + real (Suc ?n) * ?m) * ?d) * ?d ^ ?n"
  proof (rule mult_right_mono)
    have "rnd (s + x) + sum_list xs + real ?n * ?m
            \<le> (s + x) * ?d + ?m + (sum_list xs + real ?n * ?m)"
      using r by simp
    also have "\<dots> \<le> (s + x) * ?d + ?m * ?d + (sum_list xs + real ?n * ?m) * ?d"
    proof -
      have "?m \<le> ?m * ?d" using m d by (intro le_mult_ge_one) simp_all
      moreover have "0 \<le> sum_list xs + real ?n * ?m" using S m by simp
      then have "sum_list xs + real ?n * ?m \<le> (sum_list xs + real ?n * ?m) * ?d"
        using d by (rule le_mult_ge_one)
      ultimately show ?thesis by linarith
    qed
    also have "\<dots> = (s + x + sum_list xs + real (Suc ?n) * ?m) * ?d"
      by (simp add: algebra_simps)
    finally show "rnd (s + x) + sum_list xs + real ?n * ?m
            \<le> (s + x + sum_list xs + real (Suc ?n) * ?m) * ?d" .
    show "0 \<le> ?d ^ ?n" using d by simp
  qed
  finally show ?case by (simp add: algebra_simps)
qed

lemma fold_rnd_lower:
  "\<forall>x \<in> set xs. 0 \<le> x \<Longrightarrow> 0 \<le> s \<Longrightarrow>
   (s + sum_list xs) * (1 - pow2 (- 53)) ^ length xs - real (length xs) * pow2 (- 1075)
     \<le> foldl (\<lambda>s x. rnd (s + x)) s xs"
proof (induction xs arbitrary: s)
  case Nil
  then show ?case by simp
next
  case (Cons x xs)
  let ?d = "1 - pow2 (- 53)" and ?m = "pow2 (- 1075)" and ?n = "length xs"
  have "pow2 (- 53) \<le> pow2 0" by (rule pow2_mono) simp
  then have d0: "0 \<le> ?d" by (simp add: pow2_0)
  have d1: "?d \<le> 1" using pow2_pos[of "- 53"] by simp
  have m: "0 < ?m" by (rule pow2_pos)
  have x: "0 \<le> x" and xs: "\<forall>y \<in> set xs. 0 \<le> y" using Cons.prems(1) by auto
  have sx: "0 \<le> s + x" using x Cons.prems(2) by simp
  have r: "(s + x) * ?d - ?m \<le> rnd (s + x)" by (rule rnd_lower_rel[OF sx])
  have rn: "0 \<le> rnd (s + x)" by (rule rnd_nonneg[OF sx])
  have S: "0 \<le> sum_list xs" using xs by (simp add: sum_list_nonneg)
  have p0: "0 \<le> ?d ^ ?n" using d0 by simp
  have p1: "?d ^ ?n \<le> 1" using d0 d1 by (simp add: power_le_one)
  have "(s + x + sum_list xs) * ?d ^ Suc ?n - real (Suc ?n) * ?m
          \<le> ((s + x) * ?d - ?m + sum_list xs) * ?d ^ ?n - real ?n * ?m"
  proof -
    have "sum_list xs * ?d \<le> sum_list xs" using S d1 by (rule mult_le_one_le)
    then have "(s + x + sum_list xs) * ?d \<le> (s + x) * ?d + sum_list xs"
      by (simp add: algebra_simps)
    then have "(s + x + sum_list xs) * ?d * ?d ^ ?n \<le> ((s + x) * ?d + sum_list xs) * ?d ^ ?n"
      using p0 by (rule mult_right_mono)
    moreover have "?m * ?d ^ ?n \<le> ?m" using m p1 by (intro mult_le_one_le) simp_all
    moreover have "((s + x) * ?d - ?m + sum_list xs) * ?d ^ ?n
                = ((s + x) * ?d + sum_list xs) * ?d ^ ?n - ?m * ?d ^ ?n"
      by (simp add: algebra_simps)
    moreover have "real (Suc ?n) * ?m = real ?n * ?m + ?m" by (simp add: algebra_simps)
    moreover have "(s + x + sum_list xs) * ?d ^ Suc ?n = (s + x + sum_list xs) * ?d * ?d ^ ?n"
      by simp
    ultimately show ?thesis by linarith
  qed
  also have "\<dots> \<le> (rnd (s + x) + sum_list xs) * ?d ^ ?n - real ?n * ?m"
    using r p0 by (simp add: mult_right_mono)
  also have "\<dots> \<le> foldl (\<lambda>s x. rnd (s + x)) (rnd (s + x)) xs"
    by (rule Cons.IH[OF xs rn])
  finally show ?case by (simp add: algebra_simps)
qed

lemma fold_rnd_nat:
  "\<forall>x \<in> set xs. x \<in> \<nat> \<Longrightarrow> s \<in> \<nat> \<Longrightarrow> s + sum_list xs < 2 ^ 53 \<Longrightarrow>
   foldl (\<lambda>s x. rnd (s + x)) s xs = s + sum_list xs"
proof (induction xs arbitrary: s)
  case Nil
  then show ?case by simp
next
  case (Cons x xs)
  have x: "x \<in> \<nat>" and xs: "\<forall>y \<in> set xs. y \<in> \<nat>" using Cons.prems(1) by auto
  then have "s + x \<in> \<nat>" using Cons.prems(2) by (simp add: Nats_add)
  then obtain n where n: "s + x = real n" by (auto elim: Nats_cases)
  have "\<And>y. y \<in> set xs \<Longrightarrow> 0 \<le> y" using xs by (metis Nats_cases of_nat_0_le_iff)
  then have "0 \<le> sum_list xs" by (rule sum_list_nonneg)
  then have "real n < 2 ^ 53" using Cons.prems(3) n by simp
  then have "n < 2 ^ 53" by (metis of_nat_less_iff of_nat_numeral of_nat_power)
  then have r: "rnd (s + x) = s + x" using n by (simp add: rnd_nat)
  have "foldl (\<lambda>s x. rnd (s + x)) (s + x) xs = s + x + sum_list xs"
    using Cons.prems(3) \<open>s + x \<in> \<nat>\<close> by (intro Cons.IH[OF xs]) (simp_all add: algebra_simps)
  then show ?case using r by (simp add: algebra_simps)
qed

lemma pow2_vals:
  "pow2 (- 1) = 1 / 2" "pow2 (- 2) = 1 / 4" "pow2 (- 3) = 1 / 8" "pow2 (- 4) = 1 / 16"
  "pow2 (- 53) = 1 / 9007199254740992" "pow2 (- 54) = 1 / 18014398509481984"
  "pow2 (- 56) = 1 / 72057594037927936"
  using pow2_neg_nat[of 1] pow2_neg_nat[of 2] pow2_neg_nat[of 3] pow2_neg_nat[of 4]
    pow2_neg_nat[of 53] pow2_neg_nat[of 54] pow2_neg_nat[of 56]
  by simp_all

lemma rnd_d1: "rnd (3602879701896397 / 36028797018963968) = 3602879701896397 / 36028797018963968"
  using rnd_eval[of "- 4" "3602879701896397 / 36028797018963968"]
  by (simp add: pow2_vals rhe_def Let_def)

lemma rnd_d3: "rnd (5404319552844595 / 18014398509481984) = 5404319552844595 / 18014398509481984"
  using rnd_eval[of "- 2" "5404319552844595 / 18014398509481984"]
  by (simp add: pow2_vals rhe_def Let_def)

lemma rnd_half: "rnd (1 / 2) = 1 / 2"
  using rnd_eval[of "- 1" "1 / 2"]
  by (simp add: pow2_vals pow2_0 rhe_def Let_def)

lemma rnd_total: "rnd (1 / 2 + 3602879701896397 / 36028797018963968) = 5404319552844595 / 9007199254740992"
  using rnd_eval[of "- 1" "1 / 2 + 3602879701896397 / 36028797018963968"]
  by (simp add: pow2_vals pow2_0 rhe_def Let_def)

lemma rnd_s2:
  "rnd (3602879701896397 / 36028797018963968 + 3602879701896397 / 18014398509481984)
     = 5404319552844596 / 18014398509481984"
  using rnd_eval[of "- 2" "3602879701896397 / 36028797018963968 + 3602879701896397 / 18014398509481984"]
  by (simp add: pow2_vals rhe_def Let_def)

lemma rnd_s3:
  "rnd (5404319552844596 / 18014398509481984 + 5404319552844595 / 18014398509481984)
     = 5404319552844596 / 9007199254740992"
  using rnd_eval[of "- 1" "5404319552844596 / 18014398509481984 + 5404319552844595 / 18014398509481984"]
  by (simp add: pow2_vals pow2_0 rhe_def Let_def)

lemma rnd_s3_fix: "rnd (5404319552844596 / 9007199254740992) = 5404319552844596 / 9007199254740992"
  using rnd_eval[of "- 1" "5404319552844596 / 9007199254740992"]
  by (simp add: pow2_vals pow2_0 rhe_def Let_def)

lemma budget_b64_fields:
  "needs_spending (analyze_budget_b64 inc e) = fsum (map (\<lambda>c. dict_get e c 0) needs_categories)"
  "wants_spending (analyze_budget_b64 inc e) = fsum (map (\<lambda>c. dict_get e c 0) wants_categories)"
  "total_expenses (analyze_budget_b64 inc e) = fsum (map snd e)"
  by (simp_all add: analyze_budget_b64_def Let_def)

lemma dict_get_Nats: "\<forall>x \<in> set e. snd x \<in> \<nat> \<Longrightarrow> dict_get e c 0 \<in> \<nat>"
  by (induction e) (auto simp: dict_get_Cons dict_get_def)

lemma whitelist_sum_append:
  "sum_list (map (\<lambda>c. dict_get e c 0) (needs_categories @ wants_categories))
     = sum_list (map (\<lambda>c. dict_get e c 0) needs_categories)
       + sum_list (map (\<lambda>c. dict_get e c 0) wants_categories)"
  by simp

lemma budget_b64_tolerance:
  assumes "\<forall>x \<in> set e. 0 \<le> snd x"
  shows "needs_spending (analyze_budget_b64 inc e) + wants_spending (analyze_budget_b64 inc e)
           \<le> ((total_expenses (analyze_budget_b64 inc e) + real (length e) * pow2 (- 1075))
                  / (1 - pow2 (- 53)) ^ length e
               + 11 * pow2 (- 1075)) * (1 + pow2 (- 53)) ^ 6"
proof -
  let ?f = "\<lambda>c. dict_get e c 0" and ?m = "pow2 (- 1075)"
  let ?u = "1 + pow2 (- 53)" and ?d = "1 - pow2 (- 53)" and ?n = "length e"
  let ?N = "sum_list (map ?f needs_categories)" and ?W = "sum_list (map ?f wants_categories)"
  have m: "0 < ?m" by (rule pow2_pos)
  have u: "1 \<le> ?u" using pow2_pos[of "- 53"] by simp
  have "pow2 (- 53) < pow2 0" by (rule pow2_strict_mono) simp
  then have d: "0 < ?d" by (simp add: pow2_0)
  have fn: "\<forall>x \<in> set (map ?f cs). 0 \<le> x" for cs
    using dict_get_nonneg[OF assms] by simp
  have W0: "0 \<le> ?W"
    using dict_get_nonneg[OF assms] by (intro sum_list_nonneg) auto
  have nl: "length (map ?f needs_categories) = 6" by (simp add: needs_categories_def)
  have wl: "length (map ?f wants_categories) = 5" by (simp add: wants_categories_def)
  have "fsum (map ?f needs_categories) \<le> (0 + ?N + real 6 * ?m) * ?u ^ 6"
    unfolding fsum_def using fold_rnd_upper[OF fn, of 0 needs_categories] nl by simp
  then have n: "fsum (map ?f needs_categories) \<le> (?N + 6 * ?m) * ?u ^ 6" by simp
  have "fsum (map ?f wants_categories) \<le> (0 + ?W + real 5 * ?m) * ?u ^ 5"
    unfolding fsum_def using fold_rnd_upper[OF fn, of 0 wants_categories] wl by simp
  also have "\<dots> \<le> (?W + 5 * ?m) * ?u ^ 6"
  proof -
    have "?u ^ 5 \<le> ?u ^ 6" using u by (intro power_increasing) simp_all
    moreover have "0 \<le> ?W + 5 * ?m" using W0 m by simp
    ultimately show ?thesis by (simp add: mult_left_mono)
  qed
  finally have w: "fsum (map ?f wants_categories) \<le> (?W + 5 * ?m) * ?u ^ 6" .
  have "?N + ?W \<le> sum_values e"
    using whitelist_sum_le[OF distinct_whitelists assms] by simp
  then have nw: "(?N + 6 * ?m) * ?u ^ 6 + (?W + 5 * ?m) * ?u ^ 6
                  \<le> (sum_values e + 11 * ?m) * ?u ^ 6"
  proof -
    assume a: "?N + ?W \<le> sum_values e"
    have "(?N + 6 * ?m) * ?u ^ 6 + (?W + 5 * ?m) * ?u ^ 6 = (?N + ?W + 11 * ?m) * ?u ^ 6"
      by (simp add: algebra_simps)
    also have "\<dots> \<le> (sum_values e + 11 * ?m) * ?u ^ 6"
      using a u by (intro mult_right_mono) simp_all
    finally show ?thesis .
  qed
  have vn: "\<forall>x \<in> set (map snd e). 0 \<le> x" using assms by simp
  have "(0 + sum_list (map snd e)) * ?d ^ length (map snd e) - real (length (map snd e)) * ?m
          \<le> fsum (map snd e)"
    unfolding fsum_def by (rule fold_rnd_lower[OF vn]) simp
  then have "sum_values e * ?d ^ ?n \<le> fsum (map snd e) + real ?n * ?m"
    by (simp add: sum_values_def)
  then have t: "sum_values e \<le> (fsum (map snd e) + real ?n * ?m) / ?d ^ ?n"
    using d by (simp add: pos_le_divide_eq)
  have "(sum_values e + 11 * ?m) * ?u ^ 6
          \<le> ((fsum (map snd e) + real ?n * ?m) / ?d ^ ?n + 11 * ?m) * ?u ^ 6"
    using t u by (intro mult_right_mono) simp_all
  then show ?thesis using n w nw by (simp add: budget_b64_fields)
qed

lemma budget_b64_exact:
  assumes "\<forall>x \<in> set e. snd x \<in> \<nat>" and "sum_values e < 2 ^ 53"
  shows "needs_spending (analyze_budget_b64 inc e)
           = sum_list (map (\<lambda>c. dict_get e c 0) needs_categories)"
    and "wants_spending (analyze_budget_b64 inc e)
           = sum_list (map (\<lambda>c. dict_get e c 0) wants_categories)"
    and "total_expenses (analyze_budget_b64 inc e) = sum_values e"
proof -
  let ?f = "\<lambda>c. dict_get e c 0"
  have nn: "\<forall>x \<in> set e. 0 \<le> snd x" using assms(1) by (metis Nats_cases of_nat_0_le_iff)
  have fN: "\<forall>x \<in> set (map ?f cs). x \<in> \<nat>" for cs
    using dict_get_Nats[OF assms(1)] by simp
  have dn: "distinct needs_categories" and dw: "distinct wants_categories"
    using distinct_whitelists by simp_all
  have "sum_list (map ?f needs_categories) \<le> sum_values e" by (rule whitelist_sum_le[OF dn nn])
  then have "0 + sum_list (map ?f needs_categories) < 2 ^ 53" using assms(2) by simp
  then show "needs_spending (analyze_budget_b64 inc e) = sum_list (map ?f needs_categories)"
    unfolding budget_b64_fields fsum_def using fold_rnd_nat[OF fN, of 0 needs_categories] by simp
  have "sum_list (map ?f wants_categories) \<le> sum_values e" by (rule whitelist_sum_le[OF dw nn])
  then have "0 + sum_list (map ?f wants_categories) < 2 ^ 53" using assms(2) by simp
  then show "wants_spending (analyze_budget_b64 inc e) = sum_list (map ?f wants_categories)"
    unfolding budget_b64_fields fsum_def using fold_rnd_nat[OF fN, of 0 wants_categories] by simp
  have vN: "\<forall>x \<in> set (map snd e). x \<in> \<nat>" using assms(1) by simp
  have "0 + sum_list (map snd e) < 2 ^ 53" using assms(2) by (simp add: sum_values_def)
  then show "total_expenses (analyze_budget_b64 inc e) = sum_values e"
    unfolding budget_b64_fields fsum_def sum_values_def
    using fold_rnd_nat[OF vN, of 0] by simp
qed

lemma fsum_dict_order:
  "fsum [5404319552844595 / 18014398509481984, 3602879701896397 / 18014398509481984,
         3602879701896397 / 36028797018963968]
     = 5404319552844595 / 9007199254740992"
proof -
  let ?d1 = "3602879701896397 / 36028797018963968 :: real"
  let ?d2 = "3602879701896397 / 18014398509481984 :: real"
  let ?d3 = "5404319552844595 / 18014398509481984 :: real"
  have a1: "rnd (0 + ?d3) = ?d3" using rnd_d3 by simp
  have a2: "rnd (?d3 + ?d2) = 1 / 2" using rnd_half by simp
  have a3: "rnd (1 / 2 + ?d1) = 5404319552844595 / 9007199254740992" by (rule rnd_total)
  show ?thesis unfolding fsum_def by (simp only: foldl.simps a1 a2 a3)
qed

lemma fsum_whitelist_order:
  "fsum [3602879701896397 / 36028797018963968, 3602879701896397 / 18014398509481984,
         5404319552844595 / 18014398509481984, 0, 0]
     = 5404319552844596 / 9007199254740992"
proof -
  let ?d1 = "3602879701896397 / 36028797018963968 :: real"
  let ?d2 = "3602879701896397 / 18014398509481984 :: real"
  let ?d3 = "5404319552844595 / 18014398509481984 :: real"
  let ?s2 = "5404319552844596 / 18014398509481984 :: real"
  let ?s3 = "5404319552844596 / 9007199254740992 :: real"
  have a1: "rnd (0 + ?d1) = ?d1" using rnd_d1 by simp
  have a2: "rnd (?d1 + ?d2) = ?s2" by (rule rnd_s2)
  have a3: "rnd (?s2 + ?d3) = ?s3" by (rule rnd_s3)
  have a4: "rnd (?s3 + 0) = ?s3" using rnd_s3_fix by simp
  show ?thesis unfolding fsum_def by (simp only: foldl.simps a1 a2 a3 a4)
qed

lemma fsum_zeros: "fsum (replicate n 0) = 0"
  unfolding fsum_def by (induction n) (simp_all add: rnd_0)

text \<open>
  Claim C5, as stated: for non-negative amounts the sum of the two aggregates is at most the
  total of the expenses, with equality only when every category key of the mapping is in one
  of the whitelists. Two mappings refute it. A key outside both whitelists whose amount is 0
  adds nothing to the total, so the equality holds for the mapping with the single entry
  \<^verbatim>\<open>textbooks: 0\<close>. And the total is added up in the order of the dictionary while the
  aggregates are added up in the order of the whitelists, every addition rounded: for the
  mapping \<^verbatim>\<open>{shopping: 0.3, entertainment: 0.2, dining_out: 0.1}\<close> (the amounts are the
  doubles that these decimals denote) the total is \<^verbatim>\<open>0.6\<close> and the aggregate of the wants is
  \<^verbatim>\<open>0.6000000000000001\<close>, which is larger.
\<close>

theorem budget_order_violated:
  "needs_spending (analyze_budget_b64 15000 [(''textbooks'', 0)])
     + wants_spending (analyze_budget_b64 15000 [(''textbooks'', 0)])
     = total_expenses (analyze_budget_b64 15000 [(''textbooks'', 0)])
   \<and> ''textbooks'' \<in> fst ` set [(''textbooks'', 0::real)]
   \<and> ''textbooks'' \<notin> set needs_categories \<union> set wants_categories
   \<and> total_expenses (analyze_budget_b64 15000
         [(''shopping'', 5404319552844595 / 18014398509481984),
          (''entertainment'', 3602879701896397 / 18014398509481984),
          (''dining_out'', 3602879701896397 / 36028797018963968)])
       < needs_spending (analyze_budget_b64 15000
         [(''shopping'', 5404319552844595 / 18014398509481984),
          (''entertainment'', 3602879701896397 / 18014398509481984),
          (''dining_out'', 3602879701896397 / 36028797018963968)])
         + wants_spending (analyze_budget_b64 15000
         [(''shopping'', 5404319552844595 / 18014398509481984),
          (''entertainment'', 3602879701896397 / 18014398509481984),
          (''dining_out'', 3602879701896397 / 36028797018963968)])"
proof -
  let ?e = "[(''shopping'', 5404319552844595 / 18014398509481984),
          (''entertainment'', 3602879701896397 / 18014398509481984),
          (''dining_out'', 3602879701896397 / 36028797018963968)] :: expense_dict"
  have z: "fsum [0, 0, 0, 0, 0, 0] = 0" "fsum [0, 0, 0, 0, 0] = 0" "fsum [0] = 0"
    using fsum_zeros[of 6] fsum_zeros[of 5] fsum_zeros[of 1]
    by (simp_all add: numeral_eq_Suc)
  have n0: "map (\<lambda>c. dict_get [(''textbooks'', 0)] c 0) needs_categories = [0, 0, 0, 0, 0, 0]"
    by (simp add: needs_categories_def dict_get_def)
  have w0: "map (\<lambda>c. dict_get [(''textbooks'', 0)] c 0) wants_categories = [0, 0, 0, 0, 0]"
    by (simp add: wants_categories_def dict_get_def)
  have a: "needs_spending (analyze_budget_b64 15000 [(''textbooks'', 0)])
     + wants_spending (analyze_budget_b64 15000 [(''textbooks'', 0)])
     = total_expenses (analyze_budget_b64 15000 [(''textbooks'', 0)])"
    unfolding budget_b64_fields n0 w0 by (simp add: z)
  have b: "''textbooks'' \<in> fst ` set [(''textbooks'', 0::real)]
     \<and> ''textbooks'' \<notin> set needs_categories \<union> set wants_categories"
    by (simp add: needs_categories_def wants_categories_def)
  have n1: "map (\<lambda>c. dict_get ?e c 0) needs_categories = [0, 0, 0, 0, 0, 0]"
    by (simp add: needs_categories_def dict_get_def)
  have w1: "map (\<lambda>c. dict_get ?e c 0) wants_categories
      = [3602879701896397 / 36028797018963968, 3602879701896397 / 18014398509481984,
         5404319552844595 / 18014398509481984, 0, 0]"
    by (simp add: wants_categories_def dict_get_def)
  have t1: "map snd ?e
      = [5404319552844595 / 18014398509481984, 3602879701896397 / 18014398509481984,
         3602879701896397 / 36028797018963968]"
    by simp
  have c: "total_expenses (analyze_budget_b64 15000 ?e)
       < needs_spending (analyze_budget_b64 15000 ?e)
         + wants_spending (analyze_budget_b64 15000 ?e)"
    unfolding budget_b64_fields n1 w1 t1 z fsum_dict_order fsum_whitelist_order by simp
  show ?thesis using a b c by blast
qed

text \<open>
  Claim C5, amended: for every expense mapping with non-negative amounts (whose exact sum is
  below \<open>2^1000\<close>, far from overflow) the sum of the two aggregates is at most the total of
  the expenses up to the rounding of the additions: with \<open>n\<close> entries in the mapping it is at
  most \<open>((total + n * 2^-1075) / (1 - 2^-53)^n + 11 * 2^-1075) * (1 + 2^-53)^6\<close>. When all
  amounts are whole numbers whose sum is below \<open>2^53\<close>, so that no addition is rounded, the
  sum of the two aggregates is at most the total exactly, and it is equal to the total only
  when every category key with a non-zero amount is in one of the two whitelists.
\<close>

theorem needs_wants_le_total_b64:
  assumes "\<forall>x \<in> set e. 0 \<le> snd x" and "sum_values e < pow2 1000"
  shows "needs_spending (analyze_budget_b64 inc e) + wants_spending (analyze_budget_b64 inc e)
           \<le> ((total_expenses (analyze_budget_b64 inc e) + real (length e) * pow2 (- 1075))
                  / (1 - pow2 (- 53)) ^ length e
               + 11 * pow2 (- 1075)) * (1 + pow2 (- 53)) ^ 6
       \<and> ((\<forall>x \<in> set e. snd x \<in> \<nat>) \<longrightarrow> sum_values e < 2 ^ 53 \<longrightarrow>
            needs_spending (analyze_budget_b64 inc e) + wants_spending (analyze_budget_b64 inc e)
              \<le> total_expenses (analyze_budget_b64 inc e)
            \<and> (needs_spending (analyze_budget_b64 inc e)
                 + wants_spending (analyze_budget_b64 inc e)
                 = total_expenses (analyze_budget_b64 inc e) \<longrightarrow>
               (\<forall>x \<in> set e. snd x \<noteq> 0 \<longrightarrow>
                  fst x \<in> set needs_categories \<union> set wants_categories)))"
proof (intro conjI impI)
  show "needs_spending (analyze_budget_b64 inc e) + wants_spending (analyze_budget_b64 inc e)
           \<le> ((total_expenses (analyze_budget_b64 inc e) + real (length e) * pow2 (- 1075))
                  / (1 - pow2 (- 53)) ^ length e
               + 11 * pow2 (- 1075)) * (1 + pow2 (- 53)) ^ 6"
    by (rule budget_b64_tolerance[OF assms(1)])
next
  assume N: "\<forall>x \<in> set e. snd x \<in> \<nat>" and b: "sum_values e < 2 ^ 53"
  show "needs_spending (analyze_budget_b64 inc e) + wants_spending (analyze_budget_b64 inc e)
          \<le> total_expenses (analyze_budget_b64 inc e)"
    using whitelist_sum_le[OF distinct_whitelists assms(1)]
    by (simp add: budget_b64_exact[OF N b])
next
  assume N: "\<forall>x \<in> set e. snd x \<in> \<nat>" and b: "sum_values e < 2 ^ 53"
    and eq: "needs_spending (analyze_budget_b64 inc e) + wants_spending (analyze_budget_b64 inc e)
          = total_expenses (analyze_budget_b64 inc e)"
  have "sum_list (map (\<lambda>c. dict_get e c 0) (needs_categories @ wants_categories)) = sum_values e"
    using eq by (simp add: budget_b64_exact[OF N b])
  from whitelist_sum_eq_only[OF distinct_whitelists assms(1) this]
  show "\<forall>x \<in> set e. snd x \<noteq> 0 \<longrightarrow> fst x \<in> set needs_categories \<union> set wants_categories"
    by simp
qed

theorem needs_wants_le_total_b64_witness:
  "list_all (\<lambda>x. 0 \<le> snd x) [(''rent'', 600::real), (''textbooks'', 50)]
   \<and> sum_values [(''rent'', 600), (''textbooks'', 50)] < pow2 1000
   \<and> list_all (\<lambda>x. snd x \<in> \<nat>) [(''rent'', 600::real), (''textbooks'', 50)]
   \<and> needs_spending (analyze_budget_b64 15000 [(''rent'', 600), (''textbooks'', 50)])
       + wants_spending (analyze_budget_b64 15000 [(''rent'', 600), (''textbooks'', 50)])
       \<le> total_expenses (analyze_budget_b64 15000 [(''rent'', 600), (''textbooks'', 50)])
   \<and> needs_spending (analyze_budget_b64 15000 [(''rent'', 600), (''textbooks'', 50)])
       + wants_spending (analyze_budget_b64 15000 [(''rent'', 600), (''textbooks'', 50)])
       \<noteq> total_expenses (analyze_budget_b64 15000 [(''rent'', 600), (''textbooks'', 50)])"
  using needs_wants_le_total_b64 [of "[(''rent'', 600), (''textbooks'', 50)]" 15000]
    pow2_nat [of 1000]
  by (simp add: needs_categories_def wants_categories_def sum_values_def)


end
